theory Spec2Isabelle
  imports Main "HOL-Library.AList"
begin

section \<open>Connections and frames\<close>

text \<open>
  The broker of \<^verbatim>\<open>manager.py\<close> holds references to WebSocket objects that it does not
  own. A reference is a natural number and the objects live in a store
  (\<open>'m heap\<close>), so that one connection registered under several client ids or topics
  is one object. The objects are Starlette's \<^verbatim>\<open>WebSocket\<close>: the code reads \<^verbatim>\<open>client_state\<close>
  (through \<^verbatim>\<open>getattr(websocket, "client_state", None)\<close>, so the attribute may be absent)
  and calls \<^verbatim>\<open>send_json\<close> and \<^verbatim>\<open>close\<close>, which go through \<^verbatim>\<open>WebSocket.send\<close> and its
  \<^verbatim>\<open>application_state\<close>. What the server's own send callable does is outside the
  program: it either takes the message, which is then logged on the connection, or raises
  \<^verbatim>\<open>OSError\<close> (\<open>transport_raises\<close>).

  Every call of \<^verbatim>\<open>send_json\<close> in the program passes \<^verbatim>\<open>x.dict()\<close> of a server message.
  That dict keeps Python objects: the \<^verbatim>\<open>ts\<close> field is a \<^verbatim>\<open>datetime\<close> (a clock reading, whose
  value is not modelled) and the dict of a \<^verbatim>\<open>MessagePayload\<close> holds its \<^verbatim>\<open>id\<close> as a
  \<^verbatim>\<open>UUID\<close>. \<^verbatim>\<open>send_json\<close> starts with \<^verbatim>\<open>json.dumps(data)\<close> without a \<^verbatim>\<open>default\<close>, which
  raises \<^verbatim>\<open>TypeError\<close> on both. The payload type \<open>'m\<close> (\<^verbatim>\<open>models.MessagePayload\<close>) is
  opaque to the broker.
\<close>

datatype WebSocketState = CONNECTING | CONNECTED | DISCONNECTED | RESPONSE

datatype 'm frame =
    ServerAck "string option" "string option"
  | ServerEvent string 'm
  | ServerError "string option" string string
  | ServerPong "string option"
  | ServerInfo "string option" string

text \<open>
  The values found in the dicts of the server messages: \<^verbatim>\<open>None\<close>, a string, the
  \<^verbatim>\<open>datetime\<close> of \<^verbatim>\<open>ts\<close>, the nested dict of an \<^verbatim>\<open>ErrorPayload\<close> (two strings) and the
  nested dict of a \<^verbatim>\<open>MessagePayload\<close> (with its \<^verbatim>\<open>UUID\<close>).
\<close>

datatype 'm pyvalue =
    PyNone
  | PyStr string
  | PyDatetime
  | PyErrorPayload string string
  | PyMessagePayload 'm

fun py_optional :: "string option \<Rightarrow> 'm pyvalue" where
  "py_optional None = PyNone"
| "py_optional (Some x) = PyStr x"

fun dict :: "'m frame \<Rightarrow> (string \<times> 'm pyvalue) list" where
  "dict (ServerAck request_id topic) =
     [(''type'', PyStr ''ack''), (''request_id'', py_optional request_id),
      (''topic'', py_optional topic), (''status'', PyStr ''ok''), (''ts'', PyDatetime)]"
| "dict (ServerEvent topic message) =
     [(''type'', PyStr ''event''), (''topic'', PyStr topic),
      (''message'', PyMessagePayload message), (''ts'', PyDatetime)]"
| "dict (ServerError request_id code message) =
     [(''type'', PyStr ''error''), (''request_id'', py_optional request_id),
      (''error'', PyErrorPayload code message), (''ts'', PyDatetime)]"
| "dict (ServerPong request_id) =
     [(''type'', PyStr ''pong''), (''request_id'', py_optional request_id), (''ts'', PyDatetime)]"
| "dict (ServerInfo topic msg) =
     [(''type'', PyStr ''info''), (''topic'', py_optional topic), (''msg'', PyStr msg),
      (''ts'', PyDatetime)]"

datatype 'm asgi_message =
    WebsocketSend "(string \<times> 'm pyvalue) list"
  | WebsocketClose nat

record 'm websocket =
  client_state :: "WebSocketState option"
  application_state :: WebSocketState
  transport_raises :: bool
  sent :: "'m asgi_message list"

type_synonym 'm heap = "nat \<Rightarrow> 'm websocket"

datatype error =
    HTTPException nat string
  | ValueError string
  | ValidationError string
  | TypeError
  | RuntimeError
  | OSError
  | WebSocketDisconnect nat

text \<open>\<^verbatim>\<open>json.dumps\<close> on a dict of the values above: the text it returns is not modelled.\<close>

fun json_serializable :: "'m pyvalue \<Rightarrow> bool" where
  "json_serializable PyNone = True"
| "json_serializable (PyStr x) = True"
| "json_serializable PyDatetime = False"
| "json_serializable (PyErrorPayload code message) = True"
| "json_serializable (PyMessagePayload m) = False"

definition json_dumps :: "(string \<times> 'm pyvalue) list \<Rightarrow> error option" where
  "json_dumps data =
     (if list_all (\<lambda>(k, v). json_serializable v) data then None else Some TypeError)"

text \<open>The server's send callable, \<^verbatim>\<open>self._send\<close>.\<close>

definition asgi_send :: "nat \<Rightarrow> 'm asgi_message \<Rightarrow> 'm heap \<Rightarrow> error option \<times> 'm heap" where
  "asgi_send ws message h =
     (if transport_raises (h ws) then (Some OSError, h)
      else (None, h(ws := (h ws)\<lparr>sent := sent (h ws) @ [message]\<rparr>)))"

text \<open>
  \<^verbatim>\<open>WebSocket.send\<close> for the two message types the program sends, \<^verbatim>\<open>websocket.send\<close> and
  \<^verbatim>\<open>websocket.close\<close>. Only the branch for \<open>CONNECTED\<close> catches \<^verbatim>\<open>OSError\<close>.
\<close>

definition send :: "nat \<Rightarrow> 'm asgi_message \<Rightarrow> 'm heap \<Rightarrow> error option \<times> 'm heap" where
  "send ws message h =
     (case application_state (h ws) of
        CONNECTING \<Rightarrow>
          (case message of
             WebsocketSend text \<Rightarrow> (Some RuntimeError, h)
           | WebsocketClose code \<Rightarrow>
               asgi_send ws message (h(ws := (h ws)\<lparr>application_state := DISCONNECTED\<rparr>)))
      | CONNECTED \<Rightarrow>
          (let h1 = (case message of
                       WebsocketSend text \<Rightarrow> h
                     | WebsocketClose code \<Rightarrow>
                         h(ws := (h ws)\<lparr>application_state := DISCONNECTED\<rparr>))
           in case asgi_send ws message h1 of
                (None, h2) \<Rightarrow> (None, h2)
              | (Some e, h2) \<Rightarrow>
                  if e = OSError
                  then (Some (WebSocketDisconnect 1006),
                        h2(ws := (h2 ws)\<lparr>application_state := DISCONNECTED\<rparr>))
                  else (Some e, h2))
      | RESPONSE \<Rightarrow> (Some RuntimeError, h)
      | DISCONNECTED \<Rightarrow> (Some RuntimeError, h))"

definition send_json :: "nat \<Rightarrow> (string \<times> 'm pyvalue) list \<Rightarrow> 'm heap \<Rightarrow> error option \<times> 'm heap" where
  "send_json ws data h =
     (case json_dumps data of
        Some e \<Rightarrow> (Some e, h)
      | None \<Rightarrow> send ws (WebsocketSend data) h)"

definition close :: "nat \<Rightarrow> nat \<Rightarrow> 'm heap \<Rightarrow> error option \<times> 'm heap" where
  "close ws code h = send ws (WebsocketClose code) h"

section \<open>Topics\<close>

text \<open>
  A Python \<^verbatim>\<open>dict\<close> keeps insertion order: it is an association list with distinct keys,
  where \<^const>\<open>AList.update\<close> replaces in place or appends, as assignment to a key does.
  \<^verbatim>\<open>collections.deque(maxlen=100)\<close> appends on the right and then drops from the left
  while it is longer than \<open>maxlen\<close>.
\<close>

record 'm topic =
  name :: string
  subscribers :: "(string \<times> nat) list"
  message_history :: "'m list"
  message_count :: int

definition maxlen :: nat where
  "maxlen = 100"

definition Topic_init :: "string \<Rightarrow> 'm topic" where
  "Topic_init n = \<lparr>name = n, subscribers = [], message_history = [], message_count = 0\<rparr>"

definition deque_append :: "'a list \<Rightarrow> 'a \<Rightarrow> 'a list" where
  "deque_append d x = (let d' = d @ [x] in if length d' > maxlen then tl d' else d')"

text \<open>
  \<^verbatim>\<open>Topic.broadcast\<close>: the first loop runs over a snapshot of the subscribers and sends
  \<^verbatim>\<open>message.dict()\<close>; nothing catches what \<^verbatim>\<open>send_json\<close> raises, so a raise leaves the
  method at once, before the cleanup loop.
\<close>

fun fan_out :: "'m frame \<Rightarrow> (string \<times> nat) list \<Rightarrow> string list \<Rightarrow> 'm heap
    \<Rightarrow> error option \<times> string list \<times> 'm heap" where
  "fan_out msg [] disconnected_clients h = (None, disconnected_clients, h)"
| "fan_out msg ((client_id, ws) # rest) disconnected_clients h =
     (if client_state (h ws) = Some CONNECTED then
        (case send_json ws (dict msg) h of
           (Some e, h') \<Rightarrow> (Some e, disconnected_clients, h')
         | (None, h') \<Rightarrow> fan_out msg rest disconnected_clients h')
      else fan_out msg rest (disconnected_clients @ [client_id]) h)"

definition broadcast :: "'m topic \<Rightarrow> 'm frame \<Rightarrow> 'm heap \<Rightarrow> error option \<times> 'm topic \<times> 'm heap" where
  "broadcast tp msg h =
     (case fan_out msg (subscribers tp) [] h of
        (Some e, disconnected_clients, h') \<Rightarrow> (Some e, tp, h')
      | (None, disconnected_clients, h') \<Rightarrow>
          (None, tp\<lparr>subscribers := fold AList.delete disconnected_clients (subscribers tp)\<rparr>, h'))"

section \<open>The manager\<close>

text \<open>
  \<^verbatim>\<open>PubSubManager\<close> has the registry \<^verbatim>\<open>_topics\<close> and the index \<^verbatim>\<open>_clients\<close> from client
  id to a set of topic names. A Python set is kept as a list without duplicates; the
  order in which the code iterates over it is not specified and no operation depends on it.
  Every operation runs under the manager's lock and is one step. An operation returns the
  exception it raised, if any, and the state it left: what it changed before raising stays.
\<close>

record 'm state =
  topics :: "(string \<times> 'm topic) list"
  clients :: "(string \<times> string list) list"
  sockets :: "'m heap"

definition PubSubManager_init :: "'m heap \<Rightarrow> 'm state" where
  "PubSubManager_init h = \<lparr>topics = [], clients = [], sockets = h\<rparr>"

definition create_topic :: "string \<Rightarrow> 'm state \<Rightarrow> error option \<times> 'm state" where
  "create_topic n s =
     (if map_of (topics s) n \<noteq> None then (Some (HTTPException 409 ''Topic already exists''), s)
      else (None, s\<lparr>topics := AList.update n (Topic_init n) (topics s)\<rparr>))"

text \<open>
  Lines 67 to 70 and 128 to 131 of \<^verbatim>\<open>manager.py\<close>: drop a topic name from a client's index
  entry and delete the entry when it is empty.
\<close>

definition discard_subscription :: "string \<Rightarrow> string \<Rightarrow> (string \<times> string list) list
    \<Rightarrow> (string \<times> string list) list" where
  "discard_subscription client_id n cl =
     (case map_of cl client_id of
        None \<Rightarrow> cl
      | Some subs \<Rightarrow>
          (let cl1 = AList.map_entry client_id (removeAll n) cl
           in if removeAll n subs = [] then AList.delete client_id cl1 else cl1))"

fun notify_deleted :: "string \<Rightarrow> (string \<times> nat) list \<Rightarrow> (string \<times> string list) list \<Rightarrow> 'm heap
    \<Rightarrow> error option \<times> (string \<times> string list) list \<times> 'm heap" where
  "notify_deleted n [] cl h = (None, cl, h)"
| "notify_deleted n ((client_id, ws) # rest) cl h =
     (if client_state (h ws) = Some CONNECTED then
        (case send_json ws (dict (ServerInfo (Some n) ''topic_deleted'')) h of
           (Some e, h1) \<Rightarrow> (Some e, cl, h1)
         | (None, h1) \<Rightarrow>
             (case close ws 1000 h1 of
                (Some e, h2) \<Rightarrow> (Some e, cl, h2)
              | (None, h2) \<Rightarrow> notify_deleted n rest (discard_subscription client_id n cl) h2))
      else notify_deleted n rest (discard_subscription client_id n cl) h)"

definition delete_topic :: "string \<Rightarrow> 'm state \<Rightarrow> error option \<times> 'm state" where
  "delete_topic n s =
     (case map_of (topics s) n of
        None \<Rightarrow> (Some (HTTPException 404 ''Topic not found''), s)
      | Some tp \<Rightarrow>
          (case notify_deleted n (subscribers tp) (clients s) (sockets s) of
             (Some e, cl, h) \<Rightarrow> (Some e, s\<lparr>clients := cl, sockets := h\<rparr>)
           | (None, cl, h) \<Rightarrow>
               (None, s\<lparr>topics := AList.delete n (topics s), clients := cl, sockets := h\<rparr>)))"

definition list_topics :: "'m state \<Rightarrow> string list" where
  "list_topics s = map fst (topics s)"

record TopicStats =
  messages :: int
  subscribers_count :: nat

definition get_full_stats :: "'m state \<Rightarrow> (string \<times> TopicStats) list" where
  "get_full_stats s =
     map (\<lambda>(n, tp). (n, \<lparr>messages = message_count tp,
                          subscribers_count = length (subscribers tp)\<rparr>)) (topics s)"

fun replay :: "string \<Rightarrow> nat \<Rightarrow> 'm list \<Rightarrow> 'm heap \<Rightarrow> error option \<times> 'm heap" where
  "replay n ws [] h = (None, h)"
| "replay n ws (msg_payload # rest) h =
     (case send_json ws (dict (ServerEvent n msg_payload)) h of
        (Some e, h') \<Rightarrow> (Some e, h')
      | (None, h') \<Rightarrow> replay n ws rest h')"

text \<open>
  \<^verbatim>\<open>subscribe\<close>: \<open>last_n\<close> is \<^verbatim>\<open>msg.last_n\<close>, which the schema lets be \<^verbatim>\<open>None\<close>;
  \<^verbatim>\<open>None > 0\<close> raises \<^verbatim>\<open>TypeError\<close> in Python 3. For a positive \<open>k\<close> the slice
  \<^verbatim>\<open>history[-k:]\<close> starts at \<open>max (len - k) 0\<close>.
\<close>

definition subscribe :: "string \<Rightarrow> string \<Rightarrow> nat \<Rightarrow> int option \<Rightarrow> 'm state
    \<Rightarrow> error option \<times> 'm state" where
  "subscribe n client_id ws last_n s =
     (case map_of (topics s) n of
        None \<Rightarrow> (Some (ValueError ''TOPIC_NOT_FOUND''), s)
      | Some tp \<Rightarrow>
          (let ts1 = AList.map_entry n
                 (\<lambda>t. t\<lparr>subscribers := AList.update client_id ws (subscribers t)\<rparr>) (topics s);
               cl1 = (if map_of (clients s) client_id = None
                      then AList.update client_id [] (clients s) else clients s);
               cl2 = AList.map_entry client_id (List.insert n) cl1;
               s2 = s\<lparr>topics := ts1, clients := cl2\<rparr>
           in case last_n of
                None \<Rightarrow> (Some TypeError, s2)
              | Some k \<Rightarrow>
                  if k > 0 then
                    (let history = message_history tp;
                         replay_messages = drop (length history - nat k) history
                     in case replay n ws replay_messages (sockets s2) of
                          (r, h) \<Rightarrow> (r, s2\<lparr>sockets := h\<rparr>))
                  else (None, s2)))"

definition unsubscribe :: "string \<Rightarrow> string \<Rightarrow> 'm state \<Rightarrow> error option \<times> 'm state" where
  "unsubscribe n client_id s =
     (case map_of (topics s) n of
        None \<Rightarrow> (Some (ValueError ''TOPIC_NOT_FOUND''), s)
      | Some tp \<Rightarrow>
          (None, s\<lparr>topics := AList.map_entry n
                      (\<lambda>t. t\<lparr>subscribers := AList.delete client_id (subscribers t)\<rparr>) (topics s),
                    clients := discard_subscription client_id n (clients s)\<rparr>))"

definition publish :: "string \<Rightarrow> 'm \<Rightarrow> 'm state \<Rightarrow> error option \<times> 'm state" where
  "publish n message s =
     (case map_of (topics s) n of
        None \<Rightarrow> (Some (ValueError ''TOPIC_NOT_FOUND''), s)
      | Some tp \<Rightarrow>
          (let tp1 = tp\<lparr>message_history := deque_append (message_history tp) message,
                        message_count := message_count tp + 1\<rparr>
           in case broadcast tp1 (ServerEvent n message) (sockets s) of
                (r, tp2, h) \<Rightarrow> (r, s\<lparr>topics := AList.update n tp2 (topics s), sockets := h\<rparr>)))"

definition disconnect_client :: "string \<Rightarrow> 'm state \<Rightarrow> 'm state" where
  "disconnect_client client_id s =
     (case map_of (clients s) client_id of
        None \<Rightarrow> s
      | Some topics_to_unsubscribe \<Rightarrow>
          s\<lparr>topics := fold (\<lambda>n. AList.map_entry n
                         (\<lambda>t. t\<lparr>subscribers := AList.delete client_id (subscribers t)\<rparr>))
                       topics_to_unsubscribe (topics s),
            clients := AList.delete client_id (clients s)\<rparr>)"

section \<open>The stream session\<close>

text \<open>
  One iteration of the loop of \<^verbatim>\<open>websocket_endpoint\<close> in \<^verbatim>\<open>main.py\<close>. The frame is the
  decoded JSON object \<^verbatim>\<open>data\<close>. The schema classes of \<^verbatim>\<open>models.py\<close> are checked field by
  field as they are declared: a \<^verbatim>\<open>str\<close> field takes a JSON string only, an \<^verbatim>\<open>Optional\<close>
  field also takes \<^verbatim>\<open>null\<close>, a default stands in only for an absent key. The wording of
  the validator's error text is not modelled; the text of a \<open>ValidationError\<close> here is the
  field's name. The check of \<^verbatim>\<open>MessagePayload\<close> is the parameter \<open>parse\<close>.
\<close>

datatype pyfloat = Finite int int | NaN | Infinity bool

datatype json =
    JNull
  | JBool bool
  | JInt int
  | JFloat pyfloat
  | JStr string
  | JArray "json list"
  | JObject "(string \<times> json) list"

definition required_str :: "string \<Rightarrow> json option \<Rightarrow> error + string" where
  "required_str field v =
     (case v of Some (JStr x) \<Rightarrow> Inr x | _ \<Rightarrow> Inl (ValidationError field))"

definition optional_str :: "string \<Rightarrow> json option \<Rightarrow> error + string option" where
  "optional_str field v =
     (case v of
        None \<Rightarrow> Inr None
      | Some JNull \<Rightarrow> Inr None
      | Some (JStr x) \<Rightarrow> Inr (Some x)
      | _ \<Rightarrow> Inl (ValidationError field))"

text \<open>
  \<^verbatim>\<open>last_n: Optional[int] = Field(0, ge=0)\<close>. An absent key takes the default, \<^verbatim>\<open>null\<close> is
  accepted as \<^verbatim>\<open>None\<close>, an integer is checked against the bound. Any other value goes
  through the validator's conversion to \<^verbatim>\<open>int\<close> (which takes \<^verbatim>\<open>true\<close>, \<^verbatim>\<open>2.0\<close> and
  \<^verbatim>\<open>"2"\<close>, for instance); that conversion is the parameter \<open>to_int\<close>.
\<close>

definition optional_int_ge0 :: "(json \<Rightarrow> int option) \<Rightarrow> string \<Rightarrow> json option \<Rightarrow> error + int option" where
  "optional_int_ge0 to_int field v =
     (case v of
        None \<Rightarrow> Inr (Some 0)
      | Some JNull \<Rightarrow> Inr None
      | Some (JInt i) \<Rightarrow> if 0 \<le> i then Inr (Some i) else Inl (ValidationError field)
      | Some j \<Rightarrow>
          (case to_int j of
             None \<Rightarrow> Inl (ValidationError field)
           | Some i \<Rightarrow> if 0 \<le> i then Inr (Some i) else Inl (ValidationError field)))"

definition literal :: "string \<Rightarrow> string \<Rightarrow> json option \<Rightarrow> error + unit" where
  "literal field expected v =
     (if v = Some (JStr expected) then Inr () else Inl (ValidationError field))"

record ClientSubscribeMessage =
  sub_topic :: string
  sub_client_id :: string
  sub_last_n :: "int option"
  sub_request_id :: "string option"

record ClientUnsubscribeMessage =
  unsub_topic :: string
  unsub_client_id :: string
  unsub_request_id :: "string option"

record 'm ClientPublishMessage =
  pub_topic :: string
  pub_message :: 'm
  pub_request_id :: "string option"

definition validate_subscribe :: "(json \<Rightarrow> int option) \<Rightarrow> (string \<times> json) list
    \<Rightarrow> error + ClientSubscribeMessage" where
  "validate_subscribe to_int data =
     (case literal ''type'' ''subscribe'' (map_of data ''type'') of Inl e \<Rightarrow> Inl e | Inr _ \<Rightarrow>
     (case required_str ''topic'' (map_of data ''topic'') of Inl e \<Rightarrow> Inl e | Inr t \<Rightarrow>
     (case required_str ''client_id'' (map_of data ''client_id'') of Inl e \<Rightarrow> Inl e | Inr c \<Rightarrow>
     (case optional_int_ge0 to_int ''last_n'' (map_of data ''last_n'') of Inl e \<Rightarrow> Inl e | Inr k \<Rightarrow>
     (case optional_str ''request_id'' (map_of data ''request_id'') of Inl e \<Rightarrow> Inl e | Inr r \<Rightarrow>
        Inr \<lparr>sub_topic = t, sub_client_id = c, sub_last_n = k, sub_request_id = r\<rparr>)))))"

definition validate_unsubscribe :: "(string \<times> json) list \<Rightarrow> error + ClientUnsubscribeMessage" where
  "validate_unsubscribe data =
     (case literal ''type'' ''unsubscribe'' (map_of data ''type'') of Inl e \<Rightarrow> Inl e | Inr _ \<Rightarrow>
     (case required_str ''topic'' (map_of data ''topic'') of Inl e \<Rightarrow> Inl e | Inr t \<Rightarrow>
     (case required_str ''client_id'' (map_of data ''client_id'') of Inl e \<Rightarrow> Inl e | Inr c \<Rightarrow>
     (case optional_str ''request_id'' (map_of data ''request_id'') of Inl e \<Rightarrow> Inl e | Inr r \<Rightarrow>
        Inr \<lparr>unsub_topic = t, unsub_client_id = c, unsub_request_id = r\<rparr>))))"

definition validate_message :: "(json \<Rightarrow> 'm option) \<Rightarrow> string \<Rightarrow> json option \<Rightarrow> error + 'm" where
  "validate_message parse field v =
     (case v of
        None \<Rightarrow> Inl (ValidationError field)
      | Some j \<Rightarrow> (case parse j of None \<Rightarrow> Inl (ValidationError field) | Some m \<Rightarrow> Inr m))"

definition validate_publish :: "(json \<Rightarrow> 'm option) \<Rightarrow> (string \<times> json) list
    \<Rightarrow> error + 'm ClientPublishMessage" where
  "validate_publish parse data =
     (case literal ''type'' ''publish'' (map_of data ''type'') of Inl e \<Rightarrow> Inl e | Inr _ \<Rightarrow>
     (case required_str ''topic'' (map_of data ''topic'') of Inl e \<Rightarrow> Inl e | Inr t \<Rightarrow>
     (case validate_message parse ''message'' (map_of data ''message'') of Inl e \<Rightarrow> Inl e | Inr m \<Rightarrow>
     (case optional_str ''request_id'' (map_of data ''request_id'') of Inl e \<Rightarrow> Inl e | Inr r \<Rightarrow>
        Inr \<lparr>pub_topic = t, pub_message = m, pub_request_id = r\<rparr>))))"

definition validate_ping :: "(string \<times> json) list \<Rightarrow> error + string option" where
  "validate_ping data =
     (case literal ''type'' ''ping'' (map_of data ''type'') of Inl e \<Rightarrow> Inl e | Inr _ \<Rightarrow>
        optional_str ''request_id'' (map_of data ''request_id''))"

text \<open>
  The server frames are schema classes too: building one checks \<^verbatim>\<open>request_id\<close>, which the
  session passes on as it found it in \<^verbatim>\<open>data\<close>, and then the frame is sent.
\<close>

definition send_ack :: "nat \<Rightarrow> json option \<Rightarrow> string \<Rightarrow> 'm state \<Rightarrow> error option \<times> 'm state" where
  "send_ack ws request_id t s =
     (case optional_str ''request_id'' request_id of
        Inl e \<Rightarrow> (Some e, s)
      | Inr rid \<Rightarrow>
          (case send_json ws (dict (ServerAck rid (Some t))) (sockets s) of
             (r, h) \<Rightarrow> (r, s\<lparr>sockets := h\<rparr>)))"

definition send_pong :: "nat \<Rightarrow> json option \<Rightarrow> 'm state \<Rightarrow> error option \<times> 'm state" where
  "send_pong ws request_id s =
     (case optional_str ''request_id'' request_id of
        Inl e \<Rightarrow> (Some e, s)
      | Inr rid \<Rightarrow>
          (case send_json ws (dict (ServerPong rid)) (sockets s) of
             (r, h) \<Rightarrow> (r, s\<lparr>sockets := h\<rparr>)))"

text \<open>
  The message a handler builds from the exception it caught: the handler for
  \<^verbatim>\<open>ValidationError\<close> puts \<^verbatim>\<open>BAD_REQUEST\<close> in \<^verbatim>\<open>error.code\<close> and \<^verbatim>\<open>str(e)\<close> in \<^verbatim>\<open>error.message\<close>,
  the handler for \<^verbatim>\<open>ValueError\<close> puts \<^verbatim>\<open>str(e)\<close> in \<^verbatim>\<open>error.code\<close>. No handler catches any
  other exception.
\<close>

definition ServerError_init :: "json option \<Rightarrow> string \<Rightarrow> string \<Rightarrow> error + 'm frame" where
  "ServerError_init request_id code message =
     (case optional_str ''request_id'' request_id of
        Inl e \<Rightarrow> Inl e
      | Inr rid \<Rightarrow> Inr (ServerError rid code message))"

definition error_msg :: "error \<Rightarrow> json option \<Rightarrow> (error + 'm frame) option" where
  "error_msg e request_id =
     (case e of
        ValidationError txt \<Rightarrow> Some (ServerError_init request_id ''BAD_REQUEST'' txt)
      | ValueError txt \<Rightarrow> Some (ServerError_init request_id txt ''Operation failed'')
      | _ \<Rightarrow> None)"

text \<open>
  The body of the inner \<^verbatim>\<open>try\<close>. The result carries the session's \<^verbatim>\<open>client_id\<close>, which
  the subscribe branch binds before it calls the manager.
\<close>

definition dispatch :: "(json \<Rightarrow> int option) \<Rightarrow> (json \<Rightarrow> 'm option) \<Rightarrow> nat \<Rightarrow> string option
    \<Rightarrow> (string \<times> json) list \<Rightarrow> 'm state \<Rightarrow> error option \<times> string option \<times> 'm state" where
  "dispatch to_int parse ws cid data s =
     (let msg_type = map_of data ''type''; request_id = map_of data ''request_id'' in
      if msg_type = Some (JStr ''subscribe'') then
        (case validate_subscribe to_int data of
           Inl e \<Rightarrow> (Some e, cid, s)
         | Inr msg \<Rightarrow>
             (case subscribe (sub_topic msg) (sub_client_id msg) ws (sub_last_n msg) s of
                (Some e, s1) \<Rightarrow> (Some e, Some (sub_client_id msg), s1)
              | (None, s1) \<Rightarrow>
                  (case send_ack ws request_id (sub_topic msg) s1 of
                     (r, s2) \<Rightarrow> (r, Some (sub_client_id msg), s2))))
      else if msg_type = Some (JStr ''unsubscribe'') then
        (case validate_unsubscribe data of
           Inl e \<Rightarrow> (Some e, cid, s)
         | Inr msg \<Rightarrow>
             (case unsubscribe (unsub_topic msg) (unsub_client_id msg) s of
                (Some e, s1) \<Rightarrow> (Some e, cid, s1)
              | (None, s1) \<Rightarrow>
                  (case send_ack ws request_id (unsub_topic msg) s1 of
                     (r, s2) \<Rightarrow> (r, cid, s2))))
      else if msg_type = Some (JStr ''publish'') then
        (case validate_publish parse data of
           Inl e \<Rightarrow> (Some e, cid, s)
         | Inr msg \<Rightarrow>
             (case publish (pub_topic msg) (pub_message msg) s of
                (Some e, s1) \<Rightarrow> (Some e, cid, s1)
              | (None, s1) \<Rightarrow>
                  (case send_ack ws request_id (pub_topic msg) s1 of
                     (r, s2) \<Rightarrow> (r, cid, s2))))
      else if msg_type = Some (JStr ''ping'') then
        (case validate_ping data of
           Inl e \<Rightarrow> (Some e, cid, s)
         | Inr msg \<Rightarrow> (case send_pong ws request_id s of (r, s1) \<Rightarrow> (r, cid, s1)))
      else (Some (ValueError ''Unsupported message type''), cid, s))"

text \<open>
  The two handlers of the inner \<^verbatim>\<open>try\<close>, in the order of the source. Any other exception,
  and one raised inside a handler, leaves the loop.
\<close>

definition handle_frame :: "(json \<Rightarrow> int option) \<Rightarrow> (json \<Rightarrow> 'm option) \<Rightarrow> nat \<Rightarrow> string option
    \<Rightarrow> (string \<times> json) list \<Rightarrow> 'm state \<Rightarrow> error option \<times> string option \<times> 'm state" where
  "handle_frame to_int parse ws cid data s =
     (case dispatch to_int parse ws cid data s of
        (r, cid1, s1) \<Rightarrow>
          (case r of
             None \<Rightarrow> (None, cid1, s1)
           | Some e \<Rightarrow>
               (case error_msg e (map_of data ''request_id'') of
                  None \<Rightarrow> (Some e, cid1, s1)
                | Some (Inl e2) \<Rightarrow> (Some e2, cid1, s1)
                | Some (Inr f) \<Rightarrow>
                    (case send_json ws (dict f) (sockets s1) of
                       (r2, h) \<Rightarrow> (r2, cid1, s1\<lparr>sockets := h\<rparr>)))))"

section \<open>Runs of the broker\<close>

text \<open>
  A run is a sequence of manager operations, each complete before the next starts, and of
  steps of the environment, which may change the connections in any way (a peer closes, a
  transport breaks, a session accepts a new connection).
\<close>

datatype 'm op =
    Create_topic string
  | Delete_topic string
  | Subscribe string string nat "int option"
  | Unsubscribe string string
  | Publish string 'm
  | Disconnect_client string
  | Environment "'m heap"

fun exec :: "'m op \<Rightarrow> 'm state \<Rightarrow> error option \<times> 'm state" where
  "exec (Create_topic n) s = create_topic n s"
| "exec (Delete_topic n) s = delete_topic n s"
| "exec (Subscribe n c ws k) s = subscribe n c ws k s"
| "exec (Unsubscribe n c) s = unsubscribe n c s"
| "exec (Publish n m) s = publish n m s"
| "exec (Disconnect_client c) s = (None, disconnect_client c s)"
| "exec (Environment h) s = (None, s\<lparr>sockets := h\<rparr>)"

fun run :: "'m op list \<Rightarrow> 'm state \<Rightarrow> 'm state" where
  "run [] s = s"
| "run (a # as) s = run as (snd (exec a s))"

text \<open>
  The runs in which no \<^verbatim>\<open>delete_topic\<close> of a registered topic raised (it raises in the
  middle of its loop, with the index cleaned for the subscribers before the failing one
  and the topic still registered), and in which every \<^verbatim>\<open>publish\<close> left the subscribers
  maps as they were (its fan-out removed nobody).
\<close>

fun no_purge_no_abort :: "'m op list \<Rightarrow> 'm state \<Rightarrow> bool" where
  "no_purge_no_abort [] s = True"
| "no_purge_no_abort (a # as) s =
     ((case a of
         Delete_topic n \<Rightarrow> fst (exec a s) = None \<or> map_of (topics s) n = None
       | Publish n m \<Rightarrow>
           map (\<lambda>(n, tp). (n, subscribers tp)) (topics (snd (exec a s)))
             = map (\<lambda>(n, tp). (n, subscribers tp)) (topics s)
       | _ \<Rightarrow> True)
      \<and> no_purge_no_abort as (snd (exec a s)))"

text \<open>
  The two sides that the index is compared with: \<^verbatim>\<open>_clients.get(c, set())\<close>, and the keys of
  the subscribers map of the topic \<open>n\<close>, none for a name that is not registered.
\<close>

abbreviation (input) index_entry :: "'m state \<Rightarrow> string \<Rightarrow> string set" where
  "index_entry s c \<equiv> (case map_of (clients s) c of None \<Rightarrow> {} | Some S \<Rightarrow> set S)"

abbreviation (input) subscriber_ids :: "'m state \<Rightarrow> string \<Rightarrow> string set" where
  "subscriber_ids s n \<equiv>
     (case map_of (topics s) n of None \<Rightarrow> {} | Some tp \<Rightarrow> fst ` set (subscribers tp))"

section \<open>Connections used in the examples\<close>

abbreviation (input) live :: "nat websocket" where
  "live \<equiv> \<lparr>client_state = Some CONNECTED, application_state = CONNECTED,
             transport_raises = False, sent = []\<rparr>"

abbreviation (input) gone :: "nat websocket" where
  "gone \<equiv> \<lparr>client_state = Some DISCONNECTED, application_state = CONNECTED,
             transport_raises = False, sent = []\<rparr>"

section \<open>Sending and fan-out\<close>

lemma json_dumps_dict: "json_dumps (dict f) = Some TypeError"
  by (cases f) (simp_all add: json_dumps_def)

lemma send_json_dict [simp]: "send_json ws (dict f) h = (Some TypeError, h)"
  by (simp add: send_json_def json_dumps_dict)

lemma fan_out_none_connected:
  "\<forall>(c, w) \<in> set xs. client_state (h w) \<noteq> Some CONNECTED \<Longrightarrow>
   fan_out msg xs dc h = (None, dc @ map fst xs, h)"
  by (induction xs arbitrary: dc) auto

lemma fan_out_first_connected:
  "\<forall>(c', w') \<in> set pre. client_state (h w') \<noteq> Some CONNECTED \<Longrightarrow>
   client_state (h w) = Some CONNECTED \<Longrightarrow>
   fan_out msg (pre @ (c, w) # post) dc h = (Some TypeError, dc @ map fst pre, h)"
  by (induction pre arbitrary: dc) auto

lemma split_first_connected:
  assumes "\<exists>(c, w) \<in> set xs. client_state (h w) = Some CONNECTED"
  shows "\<exists>pre c w post. xs = pre @ (c, w) # post \<and>
      (\<forall>(c', w') \<in> set pre. client_state (h w') \<noteq> Some CONNECTED) \<and>
      client_state (h w) = Some CONNECTED"
proof -
  from assms have "\<exists>x \<in> set xs. client_state (h (snd x)) = Some CONNECTED" by force
  from split_list_first_prop [OF this] obtain pre x post where
    xs: "xs = pre @ x # post" and cx: "client_state (h (snd x)) = Some CONNECTED" and
    p: "\<forall>y \<in> set pre. client_state (h (snd y)) \<noteq> Some CONNECTED"
    by blast
  obtain c w where x: "x = (c, w)" by (cases x)
  from p have p': "\<forall>(c', w') \<in> set pre. client_state (h w') \<noteq> Some CONNECTED" by auto
  from xs x have "xs = pre @ (c, w) # post" by simp
  moreover from cx x have "client_state (h w) = Some CONNECTED" by simp
  ultimately show ?thesis using p' by blast
qed

lemma fold_delete_filter:
  "fold AList.delete ks ys = filter (\<lambda>(k, v). k \<notin> set ks) ys"
proof (induction ks arbitrary: ys)
  case Nil show ?case by simp
next
  case (Cons k ks)
  have "fold AList.delete (k # ks) ys = fold AList.delete ks (AList.delete k ys)" by simp
  also have "\<dots> = filter (\<lambda>(k, v). k \<notin> set ks) (AList.delete k ys)" by (rule Cons.IH)
  also have "\<dots> = filter (\<lambda>(k', v). k' \<notin> set (k # ks)) ys"
    by (auto simp: AList.delete_eq intro: filter_cong)
  finally show ?case .
qed

lemma fold_delete_all: "fold AList.delete (map fst xs) xs = []"
proof -
  have "filter (\<lambda>(k, v). k \<notin> set (map fst xs)) xs = []"
    by (rule filter_False) force
  then show ?thesis by (simp only: fold_delete_filter)
qed

lemma deque_append_eq:
  "deque_append d x = (if 100 \<le> length d then tl d @ [x] else d @ [x])"
  by (cases d) (auto simp: deque_append_def maxlen_def Let_def)

lemma broadcast_eq:
  "broadcast tp msg h =
     (if \<exists>(c, w) \<in> set (subscribers tp). client_state (h w) = Some CONNECTED
      then (Some TypeError, tp, h)
      else (None, tp\<lparr>subscribers := []\<rparr>, h))"
proof (cases "\<exists>(c, w) \<in> set (subscribers tp). client_state (h w) = Some CONNECTED")
  case True
  from split_first_connected [OF True] obtain pre c w post where
    "subscribers tp = pre @ (c, w) # post"
    "\<forall>(c', w') \<in> set pre. client_state (h w') \<noteq> Some CONNECTED"
    "client_state (h w) = Some CONNECTED"
    by blast
  with True show ?thesis
    by (simp add: broadcast_def fan_out_first_connected)
next
  case False
  then have "\<forall>(c, w) \<in> set (subscribers tp). client_state (h w) \<noteq> Some CONNECTED" by auto
  with False show ?thesis
    by (simp add: broadcast_def fan_out_none_connected fold_delete_all)
qed

lemma publish_eq:
  "map_of (topics s) n = Some tp \<Longrightarrow>
   publish n m s =
     (if \<exists>(c, w) \<in> set (subscribers tp). client_state (sockets s w) = Some CONNECTED
      then (Some TypeError,
            s\<lparr>topics := AList.update n
                 (tp\<lparr>message_history :=
                        (if 100 \<le> length (message_history tp) then tl (message_history tp) @ [m]
                         else message_history tp @ [m]),
                      message_count := message_count tp + 1\<rparr>)
                 (topics s)\<rparr>)
      else (None,
            s\<lparr>topics := AList.update n
                 (tp\<lparr>message_history :=
                        (if 100 \<le> length (message_history tp) then tl (message_history tp) @ [m]
                         else message_history tp @ [m]),
                      message_count := message_count tp + 1,
                      subscribers := []\<rparr>)
                 (topics s)\<rparr>))"
  by (simp add: publish_def Let_def broadcast_eq deque_append_eq)

subsection \<open>C1: publish\<close>

text \<open>
  C1. The claim is that \<open>publish\<close> on a registered topic appends the payload to the
  history (dropping the oldest entry at 100), adds one to \<open>message_count\<close>, sends an event
  frame to every subscriber whose connection is connected and removes the others from the
  subscribers map, leaving the index alone; and that on an absent name it raises
  \<open>TOPIC_NOT_FOUND\<close> and changes nothing.

  The code does the first two and the last. Its fan-out does not do what the claim says
  as soon as one subscriber is connected: the first \<^verbatim>\<open>send_json(message.dict())\<close> raises
  \<^verbatim>\<open>TypeError\<close>, so \<open>publish\<close> raises, no connection receives anything and nobody is
  removed. Only when no subscriber is connected does \<open>publish\<close> return, and then it has
  removed them all. The theorem is the whole of what \<open>publish\<close> does.
\<close>

theorem publish_spec:
  "(map_of (topics s) n = None \<longrightarrow> publish n m s = (Some (ValueError ''TOPIC_NOT_FOUND''), s)) \<and>
   (\<forall>tp. map_of (topics s) n = Some tp \<longrightarrow>
      publish n m s =
        (if \<exists>(c, w) \<in> set (subscribers tp). client_state (sockets s w) = Some CONNECTED
         then (Some TypeError,
               s\<lparr>topics := AList.update n
                    (tp\<lparr>message_history :=
                           (if 100 \<le> length (message_history tp) then tl (message_history tp) @ [m]
                            else message_history tp @ [m]),
                         message_count := message_count tp + 1\<rparr>)
                    (topics s)\<rparr>)
         else (None,
               s\<lparr>topics := AList.update n
                    (tp\<lparr>message_history :=
                           (if 100 \<le> length (message_history tp) then tl (message_history tp) @ [m]
                            else message_history tp @ [m]),
                         message_count := message_count tp + 1,
                         subscribers := []\<rparr>)
                    (topics s)\<rparr>)))"
  by (simp add: publish_eq) (simp add: publish_def)

theorem publish_spec_witness:
  "map_of (topics \<lparr>topics = [(''t'', \<lparr>name = ''t'', subscribers = [(''a'', 0), (''g'', 1)],
                                   message_history = [5], message_count = 1\<rparr>)],
                  clients = [(''a'', [''t'']), (''g'', [''t''])],
                  sockets = (\<lambda>_. live)(1 := gone)\<rparr>) ''t''
     = Some \<lparr>name = ''t'', subscribers = [(''a'', 0), (''g'', 1)],
             message_history = [5], message_count = 1\<rparr> \<and>
   publish ''t'' (7::nat)
        \<lparr>topics = [(''t'', \<lparr>name = ''t'', subscribers = [(''a'', 0), (''g'', 1)],
                                   message_history = [5], message_count = 1\<rparr>)],
                  clients = [(''a'', [''t'']), (''g'', [''t''])],
                  sockets = (\<lambda>_. live)(1 := gone)\<rparr>
     = (Some TypeError,
        \<lparr>topics = [(''t'', \<lparr>name = ''t'', subscribers = [(''a'', 0), (''g'', 1)],
                                   message_history = [5, 7], message_count = 2\<rparr>)],
                  clients = [(''a'', [''t'']), (''g'', [''t''])],
                  sockets = (\<lambda>_. live)(1 := gone)\<rparr>) \<and>
   sent (sockets (snd (publish ''t'' (7::nat)
        \<lparr>topics = [(''t'', \<lparr>name = ''t'', subscribers = [(''a'', 0), (''g'', 1)],
                                   message_history = [5], message_count = 1\<rparr>)],
                  clients = [(''a'', [''t'']), (''g'', [''t''])],
                  sockets = (\<lambda>_. live)(1 := gone)\<rparr>)) 0) = []"
  using publish_spec [of "\<lparr>topics = [(''t'', \<lparr>name = ''t'', subscribers = [(''a'', 0), (''g'', 1)],
                                   message_history = [5], message_count = 1\<rparr>)],
                  clients = [(''a'', [''t'']), (''g'', [''t''])],
                  sockets = (\<lambda>_. live)(1 := gone)\<rparr>" "''t''" "7::nat"]
  by simp

subsection \<open>C7: a send that fails during fan-out\<close>

text \<open>
  C7. The claim is that a send that fails during the fan-out is handled like a connection
  that is not connected: absorbed, the fan-out goes on, and the subscriber is removed at the
  end. The code has no handler around \<^verbatim>\<open>send_json\<close>. When the fan-out reaches the first
  subscriber whose connection is connected, the send raises (\<^verbatim>\<open>TypeError\<close>, from
  \<^verbatim>\<open>json.dumps\<close> on the event's dict) and the exception leaves \<^verbatim>\<open>Topic.broadcast\<close> and
  \<open>publish\<close>: the subscribers after it are not served, the connections are as they were,
  and the subscribers map is as it was, with the failing subscriber and with the
  subscribers found not connected before it. The payload stays in the history and
  \<open>message_count\<close> stays incremented.
\<close>

theorem publish_send_failure:
  "map_of (topics s) n = Some tp \<Longrightarrow>
   subscribers tp = pre @ (c, w) # post \<Longrightarrow>
   \<forall>(c', w') \<in> set pre. client_state (sockets s w') \<noteq> Some CONNECTED \<Longrightarrow>
   client_state (sockets s w) = Some CONNECTED \<Longrightarrow>
   send_json w (dict (ServerEvent n m)) (sockets s) = (Some TypeError, sockets s) \<and>
   broadcast tp (ServerEvent n m) (sockets s) = (Some TypeError, tp, sockets s) \<and>
   publish n m s =
     (Some TypeError,
      s\<lparr>topics := AList.update n
           (tp\<lparr>message_history :=
                  (if 100 \<le> length (message_history tp) then tl (message_history tp) @ [m]
                   else message_history tp @ [m]),
                message_count := message_count tp + 1\<rparr>)
           (topics s)\<rparr>)"
proof -
  assume tp: "map_of (topics s) n = Some tp"
    and sub: "subscribers tp = pre @ (c, w) # post"
    and pre: "\<forall>(c', w') \<in> set pre. client_state (sockets s w') \<noteq> Some CONNECTED"
    and conn: "client_state (sockets s w) = Some CONNECTED"
  from sub conn have ex: "\<exists>(c, w) \<in> set (subscribers tp). client_state (sockets s w) = Some CONNECTED"
    by auto
  have "broadcast tp (ServerEvent n m) (sockets s) = (Some TypeError, tp, sockets s)"
    using ex by (simp add: broadcast_eq)
  moreover have "publish n m s =
     (Some TypeError,
      s\<lparr>topics := AList.update n
           (tp\<lparr>message_history :=
                  (if 100 \<le> length (message_history tp) then tl (message_history tp) @ [m]
                   else message_history tp @ [m]),
                message_count := message_count tp + 1\<rparr>)
           (topics s)\<rparr>)"
    using ex by (simp add: publish_eq [OF tp])
  moreover have "send_json w (dict (ServerEvent n m)) (sockets s) = (Some TypeError, sockets s)"
    by (rule send_json_dict)
  ultimately show ?thesis by (intro conjI)
qed

theorem publish_send_failure_witness:
  "map_of (topics \<lparr>topics = [(''t'', \<lparr>name = ''t'', subscribers = [(''g'', 2), (''a'', 0), (''b'', 1)],
                                   message_history = [5], message_count = 1\<rparr>)],
                  clients = [(''g'', [''t'']), (''a'', [''t'']), (''b'', [''t''])],
                  sockets = (\<lambda>_. live)(2 := gone)\<rparr>) ''t''
     = Some \<lparr>name = ''t'', subscribers = [(''g'', 2), (''a'', 0), (''b'', 1)],
                                   message_history = [5], message_count = 1\<rparr> \<and>
   [(''g'', 2), (''a'', 0), (''b'', 1)] = [(''g'', 2)] @ (''a'', 0::nat) # [(''b'', 1::nat)] \<and>
   client_state (((\<lambda>_. live)(2 := gone)) (2::nat)) \<noteq> Some CONNECTED \<and>
   client_state (((\<lambda>_. live)(2 := gone)) (0::nat)) = Some CONNECTED \<and>
   publish ''t'' 7 \<lparr>topics = [(''t'', \<lparr>name = ''t'', subscribers = [(''g'', 2), (''a'', 0), (''b'', 1)],
                                   message_history = [5], message_count = 1\<rparr>)],
                  clients = [(''g'', [''t'']), (''a'', [''t'']), (''b'', [''t''])],
                  sockets = (\<lambda>_. live)(2 := gone)\<rparr>
     = (Some TypeError,
        \<lparr>topics = [(''t'', \<lparr>name = ''t'', subscribers = [(''g'', 2), (''a'', 0), (''b'', 1)],
                                   message_history = [5, 7], message_count = 2\<rparr>)],
                  clients = [(''g'', [''t'']), (''a'', [''t'']), (''b'', [''t''])],
                  sockets = (\<lambda>_. live)(2 := gone)\<rparr>) \<and>
   sent (sockets (snd (publish ''t'' 7
        \<lparr>topics = [(''t'', \<lparr>name = ''t'', subscribers = [(''g'', 2), (''a'', 0), (''b'', 1)],
                                   message_history = [5], message_count = 1\<rparr>)],
                  clients = [(''g'', [''t'']), (''a'', [''t'']), (''b'', [''t''])],
                  sockets = (\<lambda>_. live)(2 := gone)\<rparr>)) 1) = []"
proof -
  let ?s = "\<lparr>topics = [(''t'', \<lparr>name = ''t'', subscribers = [(''g'', 2), (''a'', 0), (''b'', 1)],
                                   message_history = [5::nat], message_count = 1\<rparr>)],
                  clients = [(''g'', [''t'']), (''a'', [''t'']), (''b'', [''t''])],
                  sockets = (\<lambda>_. live)(2 := gone)\<rparr>"
  have 1: "map_of (topics ?s) ''t''
     = Some \<lparr>name = ''t'', subscribers = [(''g'', 2), (''a'', 0), (''b'', 1)],
                                   message_history = [5], message_count = 1\<rparr>"
    by simp
  have 2: "subscribers \<lparr>name = ''t'', subscribers = [(''g'', 2), (''a'', 0), (''b'', 1)],
                                   message_history = [5::nat], message_count = 1\<rparr>
      = [(''g'', 2)] @ (''a'', 0) # [(''b'', 1)]"
    by simp
  have 3: "\<forall>(c', w') \<in> set [(''g'', 2::nat)]. client_state (sockets ?s w') \<noteq> Some CONNECTED"
    by simp
  have 4: "client_state (sockets ?s 0) = Some CONNECTED" by simp
  from publish_send_failure [OF 1 2 3 4, of 7, THEN conjunct2, THEN conjunct2] 1 2 3 4
  show ?thesis by simp
qed

section \<open>Subscribing\<close>

lemma replay_eq:
  "replay n ws ps h = (if ps = [] then (None, h) else (Some TypeError, h))"
  by (cases ps) (simp_all del: dict.simps)

lemma drop_suffix_empty:
  "(drop (length xs - nat k) xs = []) = (xs = [] \<or> k \<le> 0)"
  by (cases xs) auto

lemma subscribe_some:
  "map_of (topics s) n = Some tp \<Longrightarrow>
   subscribe n c ws (Some k) s =
     (if 0 < k \<and> message_history tp \<noteq> [] then Some TypeError else None,
      s\<lparr>topics := AList.map_entry n
                 (\<lambda>t. t\<lparr>subscribers := AList.update c ws (subscribers t)\<rparr>) (topics s),
        clients := AList.map_entry c (List.insert n)
                 (if map_of (clients s) c = None then AList.update c [] (clients s) else clients s)\<rparr>)"
  by (simp add: subscribe_def Let_def replay_eq drop_suffix_empty del: drop_eq_Nil drop_eq_Nil2)

subsection \<open>C2: replay on subscribe\<close>

text \<open>
  C2. The claim is that \<open>subscribe\<close> with \<open>last_n = k > 0\<close> replays the last
  \<open>min k |history|\<close> entries in order, with \<open>k = 0\<close> replays nothing, and with \<open>k\<close> beyond
  the history replays all of it. The code selects exactly those entries
  (\<^verbatim>\<open>history[-last_n:]\<close>), but the first \<^verbatim>\<open>send_json(event.dict())\<close> of the replay raises
  \<^verbatim>\<open>TypeError\<close>: on a registered topic, \<open>subscribe\<close> with an integer \<open>k\<close> installs the
  subscription, sends nothing on any connection, and raises \<^verbatim>\<open>TypeError\<close> exactly when
  \<open>k > 0\<close> and the history is not empty; otherwise it returns.
\<close>

theorem subscribe_replay:
  "map_of (topics s) n = Some tp \<Longrightarrow>
   fst (subscribe n c ws (Some k) s)
     = (if 0 < k \<and> message_history tp \<noteq> [] then Some TypeError else None) \<and>
   sockets (snd (subscribe n c ws (Some k) s)) = sockets s \<and>
   map_of (topics (snd (subscribe n c ws (Some k) s))) n
     = Some (tp\<lparr>subscribers := AList.update c ws (subscribers tp)\<rparr>)"
  by (simp add: subscribe_some AList.map_of_map_entry)

theorem subscribe_replay_witness:
  "map_of (topics \<lparr>topics = [(''t'', \<lparr>name = ''t'', subscribers = [],
                                   message_history = [1, 2, 3], message_count = 3\<rparr>)],
                  clients = [], sockets = (\<lambda>_. live)\<rparr>) ''t''
     = Some \<lparr>name = ''t'', subscribers = [], message_history = [1, 2, 3], message_count = 3\<rparr> \<and>
   fst (subscribe ''t'' ''c'' 0 (Some 2)
        \<lparr>topics = [(''t'', \<lparr>name = ''t'', subscribers = [],
                                   message_history = [1, 2, 3], message_count = 3\<rparr>)],
                  clients = [], sockets = (\<lambda>_. live)\<rparr>) = Some TypeError \<and>
   sent (sockets (snd (subscribe ''t'' ''c'' 0 (Some 2)
        \<lparr>topics = [(''t'', \<lparr>name = ''t'', subscribers = [],
                                   message_history = [1, 2, 3], message_count = 3\<rparr>)],
                  clients = [], sockets = (\<lambda>_. live)\<rparr>)) 0) = [] \<and>
   map_of (topics (snd (subscribe ''t'' ''c'' 0 (Some 2)
        \<lparr>topics = [(''t'', \<lparr>name = ''t'', subscribers = [],
                                   message_history = [1, 2, 3], message_count = 3\<rparr>)],
                  clients = [], sockets = (\<lambda>_. live)\<rparr>))) ''t''
     = Some \<lparr>name = ''t'', subscribers = [(''c'', 0)], message_history = [1, 2, 3],
             message_count = 3\<rparr>"
proof -
  let ?s = "\<lparr>topics = [(''t'', \<lparr>name = ''t'', subscribers = [],
                                   message_history = [1, 2, 3::nat], message_count = 3\<rparr>)],
                  clients = [], sockets = (\<lambda>_. live)\<rparr>"
  have 1: "map_of (topics ?s) ''t''
     = Some \<lparr>name = ''t'', subscribers = [], message_history = [1, 2, 3], message_count = 3\<rparr>"
    by simp
  from subscribe_replay [OF 1, of "''c''" 0 2] 1 show ?thesis by simp
qed

section \<open>Subscriber counts\<close>

lemma map_of_get_full_stats:
  "map_of (get_full_stats s) t =
     map_option (\<lambda>tp. \<lparr>messages = message_count tp, subscribers_count = length (subscribers tp)\<rparr>)
       (map_of (topics s) t)"
  by (simp add: get_full_stats_def map_of_map)

lemma length_delete_update:
  "length (AList.delete c (AList.update c ws xs)) =
     (if c \<in> fst ` set xs \<and> distinct (map fst xs) then length xs - 1 else length (AList.delete c xs))"
proof -
  have "length (AList.delete c xs) = length (removeAll c (map fst xs))"
    by (simp add: AList.delete_keys [symmetric])
  moreover have "distinct (map fst xs) \<Longrightarrow> removeAll c (map fst xs) = remove1 c (map fst xs)"
    by (simp add: distinct_remove1_removeAll)
  ultimately show ?thesis
    by (auto simp: AList.delete_update_same length_remove1)
qed

lemma subscribe_unsubscribe_topic:
  assumes "map_of (topics s) t = Some tp"
  shows "fst (subscribe t c ws (Some 0) s) = None"
    and "fst (unsubscribe t c (snd (subscribe t c ws (Some 0) s))) = None"
    and "map_of (topics (snd (unsubscribe t c (snd (subscribe t c ws (Some 0) s))))) t
          = Some (tp\<lparr>subscribers := AList.delete c (AList.update c ws (subscribers tp))\<rparr>)"
  using assms by (simp_all add: subscribe_def unsubscribe_def Let_def AList.map_of_map_entry)

subsection \<open>C5: subscribe, then unsubscribe\<close>

text \<open>
  C5, as amended. On a registered topic \<open>t\<close>, \<open>subscribe t c connection 0\<close> followed by
  \<open>unsubscribe t c\<close> both return normally, and the subscriber count of \<open>t\<close> reported by
  \<open>get_full_stats\<close> is the count before the subscribe when \<open>c\<close> was not a subscriber of
  \<open>t\<close>; when \<open>c\<close> already was one, the count is one less than before.
\<close>

theorem subscribe_unsubscribe_count:
  "map_of (topics s) t = Some tp \<Longrightarrow>
   fst (subscribe t c ws (Some 0) s) = None \<and>
   fst (unsubscribe t c (snd (subscribe t c ws (Some 0) s))) = None \<and>
   (c \<notin> fst ` set (subscribers tp) \<longrightarrow>
      map_of (get_full_stats (snd (unsubscribe t c (snd (subscribe t c ws (Some 0) s))))) t
        = map_of (get_full_stats s) t) \<and>
   (c \<in> fst ` set (subscribers tp) \<and> distinct (map fst (subscribers tp)) \<longrightarrow>
      map_of (get_full_stats (snd (unsubscribe t c (snd (subscribe t c ws (Some 0) s))))) t
        = Some \<lparr>messages = message_count tp, subscribers_count = length (subscribers tp) - 1\<rparr>)"
proof -
  assume a: "map_of (topics s) t = Some tp"
  show ?thesis
    unfolding map_of_get_full_stats subscribe_unsubscribe_topic [OF a] a
    by (simp add: length_delete_update)
qed

theorem subscribe_unsubscribe_count_witness:
  "map_of (topics \<lparr>topics = [(''t'', \<lparr>name = ''t'', subscribers = [(''a'', 0)],
                                   message_history = [], message_count = 0\<rparr>)],
                  clients = [(''a'', [''t''])], sockets = (\<lambda>_. live)\<rparr>) ''t''
     = Some \<lparr>name = ''t'', subscribers = [(''a'', 0)], message_history = [], message_count = 0\<rparr> \<and>
   ''c'' \<notin> fst ` set [(''a'', 0::nat)] \<and>
   map_of (get_full_stats (snd (unsubscribe ''t'' ''c'' (snd (subscribe ''t'' ''c'' 1 (Some 0)
       \<lparr>topics = [(''t'', \<lparr>name = ''t'', subscribers = [(''a'', 0)],
                                   message_history = [], message_count = 0\<rparr>)],
                  clients = [(''a'', [''t''])], sockets = (\<lambda>_. live)\<rparr>))))) ''t''
     = Some \<lparr>messages = 0, subscribers_count = 1\<rparr> \<and>
   ''a'' \<in> fst ` set [(''a'', 0::nat)] \<and> distinct (map fst [(''a'', 0::nat)]) \<and>
   map_of (get_full_stats (snd (unsubscribe ''t'' ''a'' (snd (subscribe ''t'' ''a'' 1 (Some 0)
       \<lparr>topics = [(''t'', \<lparr>name = ''t'', subscribers = [(''a'', 0)],
                                   message_history = [], message_count = 0\<rparr>)],
                  clients = [(''a'', [''t''])], sockets = (\<lambda>_. live)\<rparr>))))) ''t''
     = Some \<lparr>messages = 0, subscribers_count = 0\<rparr>"
  using subscribe_unsubscribe_count [of "\<lparr>topics = [(''t'', \<lparr>name = ''t'', subscribers = [(''a'', 0)],
                                   message_history = [], message_count = 0\<rparr>)],
                  clients = [(''a'', [''t''])], sockets = (\<lambda>_. live)\<rparr>" "''t''" _ "''c''" 1]
    subscribe_unsubscribe_count [of "\<lparr>topics = [(''t'', \<lparr>name = ''t'', subscribers = [(''a'', 0)],
                                   message_history = [], message_count = 0\<rparr>)],
                  clients = [(''a'', [''t''])], sockets = (\<lambda>_. live)\<rparr>" "''t''" _ "''a''" 1]
  by (simp add: map_of_get_full_stats)

text \<open>
  C5 as stated fails when the client is already subscribed: the second subscribe replaces
  the handle and the unsubscribe removes the entry, so the count goes from 1 to 0.
\<close>

theorem subscribe_unsubscribe_count_counterexample:
  "get_full_stats (run [Create_topic ''t'', Subscribe ''t'' ''c'' 0 (Some 0)]
      (PubSubManager_init (\<lambda>_. live)))
     = [(''t'', \<lparr>messages = 0, subscribers_count = 1\<rparr>)] \<and>
   get_full_stats (run [Create_topic ''t'', Subscribe ''t'' ''c'' 0 (Some 0),
        Subscribe ''t'' ''c'' 0 (Some 0), Unsubscribe ''t'' ''c'']
      (PubSubManager_init (\<lambda>_. live)))
     = [(''t'', \<lparr>messages = 0, subscribers_count = 0\<rparr>)]"
  by (simp add: PubSubManager_init_def create_topic_def subscribe_def unsubscribe_def
      get_full_stats_def Topic_init_def discard_subscription_def Let_def)

section \<open>Disconnecting a client\<close>

lemma map_entry_project:
  "(\<And>t. g (f t) = g t) \<Longrightarrow>
   map (\<lambda>(n, t). (n, g t)) (AList.map_entry k f ts) = map (\<lambda>(n, t). (n, g t)) ts"
  by (induction ts) auto

lemma fold_map_entry_project:
  "(\<And>t. g (f t) = g t) \<Longrightarrow>
   map (\<lambda>(n, t). (n, g t)) (fold (\<lambda>n. AList.map_entry n f) ns ts) = map (\<lambda>(n, t). (n, g t)) ts"
  by (induction ns arbitrary: ts) (simp_all add: map_entry_project)

lemma map_of_fold_map_entry:
  "(\<And>t. f (f t) = f t) \<Longrightarrow>
   map_of (fold (\<lambda>n. AList.map_entry n f) ns ts) k =
     (if k \<in> set ns then map_option f (map_of ts k) else map_of ts k)"
proof (induction ns arbitrary: ts)
  case Nil
  show ?case by simp
next
  case (Cons n ns)
  show ?case
    by (auto simp: Cons.IH [OF Cons.prems] Cons.prems AList.map_of_map_entry split: option.splits)
qed

subsection \<open>C10: what disconnect\_client leaves alone\<close>

text \<open>
  C10. \<open>disconnect_client c\<close> leaves the registry with the same topic names in the same
  order, each with its name, history and \<open>message_count\<close> unchanged; it leaves the
  connections and the index entries of all other clients unchanged and removes the entry
  of \<open>c\<close>. A registered topic that is not listed in the index entry of \<open>c\<close> is unchanged;
  one that is listed has \<open>c\<close> removed from its subscribers map and is otherwise unchanged.
\<close>

theorem disconnect_client_frame:
  "map (\<lambda>(n, tp). (n, name tp, message_history tp, message_count tp))
       (topics (disconnect_client c s))
     = map (\<lambda>(n, tp). (n, name tp, message_history tp, message_count tp)) (topics s) \<and>
   sockets (disconnect_client c s) = sockets s \<and>
   map_of (clients (disconnect_client c s)) c = None \<and>
   (\<forall>c'. c' \<noteq> c \<longrightarrow> map_of (clients (disconnect_client c s)) c' = map_of (clients s) c') \<and>
   (\<forall>n tp. map_of (topics s) n = Some tp \<longrightarrow>
      map_of (topics (disconnect_client c s)) n =
        Some (if n \<in> set (case map_of (clients s) c of None \<Rightarrow> [] | Some S \<Rightarrow> S)
              then tp\<lparr>subscribers := AList.delete c (subscribers tp)\<rparr> else tp))"
proof (cases "map_of (clients s) c")
  case None
  then show ?thesis by (simp add: disconnect_client_def)
next
  case (Some S)
  let ?f = "\<lambda>t::'a topic. t\<lparr>subscribers := AList.delete c (subscribers t)\<rparr>"
  have idem: "\<And>t. ?f (?f t) = ?f t" by (simp add: AList.delete_idem)
  have proj: "\<And>t. (\<lambda>tp. (name tp, message_history tp, message_count tp)) (?f t)
      = (\<lambda>tp. (name tp, message_history tp, message_count tp)) t"
    by simp
  have s': "disconnect_client c s =
      s\<lparr>topics := fold (\<lambda>n. AList.map_entry n ?f) S (topics s),
        clients := AList.delete c (clients s)\<rparr>"
    using Some by (simp add: disconnect_client_def)
  have 1: "map (\<lambda>(n, tp). (n, name tp, message_history tp, message_count tp))
       (topics (disconnect_client c s))
     = map (\<lambda>(n, tp). (n, name tp, message_history tp, message_count tp)) (topics s)"
    unfolding s' using fold_map_entry_project [of "\<lambda>tp. (name tp, message_history tp, message_count tp)" ?f S "topics s", OF proj]
    by simp
  have 5: "map_of (topics (disconnect_client c s)) n =
        Some (if n \<in> set (case map_of (clients s) c of None \<Rightarrow> [] | Some S \<Rightarrow> S)
              then tp\<lparr>subscribers := AList.delete c (subscribers tp)\<rparr> else tp)"
    if "map_of (topics s) n = Some tp" for n tp
    unfolding s' using that Some by (simp add: map_of_fold_map_entry [of ?f, OF idem])
  show ?thesis
    using 1 5 by (simp add: s' AList.delete_conv')
qed

theorem disconnect_client_frame_witness:
  "map_of (topics \<lparr>topics = [(''t'', \<lparr>name = ''t'', subscribers = [(''a'', 0), (''b'', 1)],
                                  message_history = [5], message_count = 1\<rparr>),
                            (''u'', \<lparr>name = ''u'', subscribers = [(''b'', 1)],
                                  message_history = [], message_count = 0\<rparr>)],
                  clients = [(''a'', [''t'']), (''b'', [''t'', ''u''])],
                  sockets = (\<lambda>_. live)\<rparr>) ''t''
     = Some \<lparr>name = ''t'', subscribers = [(''a'', 0), (''b'', 1)],
                                  message_history = [5], message_count = 1\<rparr> \<and>
   ''b'' \<noteq> ''a'' \<and>
   map_of (clients (disconnect_client ''a''
        \<lparr>topics = [(''t'', \<lparr>name = ''t'', subscribers = [(''a'', 0), (''b'', 1)],
                                  message_history = [5], message_count = 1\<rparr>),
                            (''u'', \<lparr>name = ''u'', subscribers = [(''b'', 1)],
                                  message_history = [], message_count = 0\<rparr>)],
                  clients = [(''a'', [''t'']), (''b'', [''t'', ''u''])],
                  sockets = (\<lambda>_. live)\<rparr>)) ''b'' = Some [''t'', ''u''] \<and>
   map_of (topics (disconnect_client ''a''
        \<lparr>topics = [(''t'', \<lparr>name = ''t'', subscribers = [(''a'', 0), (''b'', 1)],
                                  message_history = [5], message_count = 1\<rparr>),
                            (''u'', \<lparr>name = ''u'', subscribers = [(''b'', 1)],
                                  message_history = [], message_count = 0\<rparr>)],
                  clients = [(''a'', [''t'']), (''b'', [''t'', ''u''])],
                  sockets = (\<lambda>_. live)\<rparr>)) ''t''
     = Some \<lparr>name = ''t'', subscribers = [(''b'', 1)], message_history = [5], message_count = 1\<rparr> \<and>
   map_of (topics (disconnect_client ''a''
        \<lparr>topics = [(''t'', \<lparr>name = ''t'', subscribers = [(''a'', 0), (''b'', 1)],
                                  message_history = [5], message_count = 1\<rparr>),
                            (''u'', \<lparr>name = ''u'', subscribers = [(''b'', 1)],
                                  message_history = [], message_count = 0\<rparr>)],
                  clients = [(''a'', [''t'']), (''b'', [''t'', ''u''])],
                  sockets = (\<lambda>_. live)\<rparr>)) ''u''
     = Some \<lparr>name = ''u'', subscribers = [(''b'', 1)], message_history = [], message_count = 0\<rparr>"
proof -
  let ?s = "\<lparr>topics = [(''t'', \<lparr>name = ''t'', subscribers = [(''a'', 0), (''b'', 1)],
                                  message_history = [5::nat], message_count = 1\<rparr>),
                            (''u'', \<lparr>name = ''u'', subscribers = [(''b'', 1)],
                                  message_history = [], message_count = 0\<rparr>)],
                  clients = [(''a'', [''t'']), (''b'', [''t'', ''u''])],
                  sockets = (\<lambda>_. live)\<rparr>"
  note fr = disconnect_client_frame [of "''a''" ?s]
  show ?thesis
    using fr [THEN conjunct2, THEN conjunct2, THEN conjunct2, THEN conjunct1, rule_format, of "''b''"]
      fr [THEN conjunct2, THEN conjunct2, THEN conjunct2, THEN conjunct2, rule_format, of "''t''"]
      fr [THEN conjunct2, THEN conjunct2, THEN conjunct2, THEN conjunct2, rule_format, of "''u''"]
    by simp
qed

section \<open>What each operation does to the registry\<close>

lemma set_update_subset: "set (AList.update k v al) \<subseteq> insert (k, v) (set al)"
  by (induction al) auto

lemma set_delete_subset: "set (AList.delete k al) \<subseteq> set al"
  by (auto simp: AList.delete_eq)

lemma broadcast_keeps:
  "broadcast tp msg h = (r, tp', h') \<Longrightarrow>
   name tp' = name tp \<and> message_history tp' = message_history tp \<and>
   message_count tp' = message_count tp"
  by (auto simp: broadcast_def split: prod.splits option.splits)

lemma topics_subscribe:
  "topics (snd (subscribe n c ws k s)) =
     (if map_of (topics s) n = None then topics s
      else AList.map_entry n (\<lambda>t. t\<lparr>subscribers := AList.update c ws (subscribers t)\<rparr>) (topics s))"
  by (auto simp: subscribe_def Let_def split: option.splits prod.splits)

lemma topics_unsubscribe:
  "topics (snd (unsubscribe n c s)) =
     (if map_of (topics s) n = None then topics s
      else AList.map_entry n (\<lambda>t. t\<lparr>subscribers := AList.delete c (subscribers t)\<rparr>) (topics s))"
  by (auto simp: unsubscribe_def split: option.splits)

lemma topics_delete_topic:
  "topics (snd (delete_topic n s)) = topics s \<or>
   topics (snd (delete_topic n s)) = AList.delete n (topics s)"
  by (auto simp: delete_topic_def split: option.splits prod.splits)

lemma topics_disconnect_client:
  "map (\<lambda>(n, tp). (n, message_history tp)) (topics (disconnect_client c s))
     = map (\<lambda>(n, tp). (n, message_history tp)) (topics s)"
  by (auto simp: disconnect_client_def fold_map_entry_project split: option.splits)

lemma topics_publish:
  assumes "map_of (topics s) n = Some tp"
  shows "\<exists>tp'. topics (snd (publish n m s)) = AList.update n tp' (topics s) \<and>
         message_history tp' = deque_append (message_history tp) m"
proof -
  let ?tp1 = "tp\<lparr>message_history := deque_append (message_history tp) m,
                 message_count := message_count tp + 1\<rparr>"
  obtain r tp2 h' where b: "broadcast ?tp1 (ServerEvent n m) (sockets s) = (r, tp2, h')"
    by (cases "broadcast ?tp1 (ServerEvent n m) (sockets s)") auto
  from broadcast_keeps [OF b] have "message_history tp2 = deque_append (message_history tp) m"
    by simp
  moreover have "topics (snd (publish n m s)) = AList.update n tp2 (topics s)"
    using assms b by (simp add: publish_def Let_def)
  ultimately show ?thesis by blast
qed

lemma length_deque_append:
  "length d \<le> 100 \<Longrightarrow> length (deque_append d x) \<le> 100"
  by (simp add: deque_append_eq)

lemma histories_project:
  fixes ts ts' :: "(string \<times> 'a topic) list"
  assumes "map (\<lambda>(n, tp). (n, message_history tp)) ts' = map (\<lambda>(n, tp). (n, message_history tp)) ts"
  shows "message_history ` snd ` set ts' = message_history ` snd ` set ts"
proof -
  have p: "map snd (map (\<lambda>(n, tp). (n, message_history tp)) xs) = map (message_history \<circ> snd) xs"
    for xs :: "(string \<times> 'a topic) list"
    by (induction xs) auto
  from assms have "map snd (map (\<lambda>(n, tp). (n, message_history tp)) ts')
      = map snd (map (\<lambda>(n, tp). (n, message_history tp)) ts)"
    by (rule arg_cong)
  then have "map (message_history \<circ> snd) ts' = map (message_history \<circ> snd) ts"
    unfolding p .
  then have "set (map (message_history \<circ> snd) ts') = set (map (message_history \<circ> snd) ts)"
    by simp
  then show ?thesis by (simp add: image_comp)
qed

lemma exec_history_bound:
  assumes inv: "\<forall>tp \<in> snd ` set (topics s). length (message_history tp) \<le> 100"
  shows "\<forall>tp \<in> snd ` set (topics (snd (exec a s))). length (message_history tp) \<le> 100"
proof -
  have inv': "\<forall>hs \<in> message_history ` snd ` set (topics s). length hs \<le> 100"
    using inv by simp
  have via_project: "\<forall>tp \<in> snd ` set ts'. length (message_history tp) \<le> 100"
    if "map (\<lambda>(n, tp). (n, message_history tp)) ts'
        = map (\<lambda>(n, tp). (n, message_history tp)) (topics s)" for ts' :: "(string \<times> 'a topic) list"
    using histories_project [OF that] inv' by blast
  show ?thesis
  proof (cases a)
    case (Create_topic n)
    have "set (AList.update n (Topic_init n) (topics s)) \<subseteq> insert (n, Topic_init n) (set (topics s))"
      by (rule set_update_subset)
    then show ?thesis using inv
      by (auto simp: Create_topic create_topic_def Topic_init_def)
  next
    case (Delete_topic n)
    then show ?thesis
      using inv topics_delete_topic [of n s] set_delete_subset [of n "topics s"] by auto
  next
    case (Subscribe n c ws k)
    show ?thesis
      unfolding Subscribe exec.simps topics_subscribe
      by (rule via_project) (simp add: map_entry_project)
  next
    case (Unsubscribe n c)
    show ?thesis
      unfolding Unsubscribe exec.simps topics_unsubscribe
      by (rule via_project) (simp add: map_entry_project)
  next
    case (Publish n m)
    show ?thesis
    proof (cases "map_of (topics s) n")
      case None
      then show ?thesis using inv by (simp add: Publish publish_def)
    next
      case (Some tp)
      then have "(n, tp) \<in> set (topics s)" by (rule map_of_SomeD)
      with inv have "length (message_history tp) \<le> 100" by force
      then have le: "length (deque_append (message_history tp) m) \<le> 100"
        by (rule length_deque_append)
      from topics_publish [OF Some, of m] obtain tp' where
        t: "topics (snd (publish n m s)) = AList.update n tp' (topics s)"
        and h: "message_history tp' = deque_append (message_history tp) m"
        by blast
      have "set (AList.update n tp' (topics s)) \<subseteq> insert (n, tp') (set (topics s))"
        by (rule set_update_subset)
      then show ?thesis
        using inv le h by (auto simp: Publish t)
    qed
  next
    case (Disconnect_client c)
    show ?thesis
      unfolding Disconnect_client exec.simps snd_conv
      by (rule via_project) (rule topics_disconnect_client)
  next
    case (Environment h)
    then show ?thesis using inv by simp
  qed
qed

lemma run_history_bound:
  "\<forall>tp \<in> snd ` set (topics s). length (message_history tp) \<le> 100 \<Longrightarrow>
   \<forall>tp \<in> snd ` set (topics (run ops s)). length (message_history tp) \<le> 100"
proof (induction ops arbitrary: s)
  case Nil
  then show ?case by simp
next
  case (Cons a ops)
  from Cons.prems have "\<forall>tp \<in> snd ` set (topics (snd (exec a s))). length (message_history tp) \<le> 100"
    by (rule exec_history_bound)
  then have "\<forall>tp \<in> snd ` set (topics (run ops (snd (exec a s)))). length (message_history tp) \<le> 100"
    by (rule Cons.IH)
  then show ?case by (simp only: run.simps)
qed

lemma publish_many:
  "map_of (topics s) n = Some tp \<Longrightarrow> length (message_history tp) \<le> 100 \<Longrightarrow>
   \<exists>tp'. map_of (topics (run (map (Publish n) ms) s)) n = Some tp' \<and>
      message_history tp' =
        drop (length (message_history tp @ ms) - 100) (message_history tp @ ms)"
proof (induction ms arbitrary: s tp)
  case Nil
  then show ?case by simp
next
  case (Cons m ms)
  from topics_publish [OF Cons.prems(1), of m] obtain tp1 where
    t: "topics (snd (publish n m s)) = AList.update n tp1 (topics s)"
    and h: "message_history tp1 = deque_append (message_history tp) m"
    by blast
  have 1: "map_of (topics (snd (publish n m s))) n = Some tp1"
    by (simp add: t AList.update_conv')
  have 2: "length (message_history tp1) \<le> 100"
    unfolding h using Cons.prems(2) by (rule length_deque_append)
  from Cons.IH [OF 1 2] obtain tp' where
    r: "map_of (topics (run (map (Publish n) ms) (snd (publish n m s)))) n = Some tp'"
    and hh: "message_history tp' =
        drop (length (message_history tp1 @ ms) - 100) (message_history tp1 @ ms)"
    by blast
  have "drop (length (message_history tp1 @ ms) - 100) (message_history tp1 @ ms)
      = drop (length (message_history tp @ m # ms) - 100) (message_history tp @ m # ms)"
  proof (cases "100 \<le> length (message_history tp)")
    case False
    then show ?thesis by (simp add: h deque_append_eq)
  next
    case True
    with Cons.prems(2) have len: "length (message_history tp) = 100" by simp
    then obtain x xs where hx: "message_history tp = x # xs"
      by (cases "message_history tp") auto
    with len have lx: "length xs = 99" by simp
    have e1: "message_history tp1 = xs @ [m]"
      unfolding h deque_append_eq using True hx by simp
    have l1: "length ((xs @ [m]) @ ms) - 100 = length ms"
      using lx by simp
    have l2: "length ((x # xs) @ m # ms) - 100 = Suc (length ms)"
      using lx by simp
    show ?thesis
      unfolding e1 hx l1 l2 by simp
  qed
  with r hh show ?case by simp
qed

subsection \<open>C8: the history holds at most 100 entries\<close>

text \<open>
  C8. In every state that a run of manager operations and environment steps reaches from
  a fresh manager, every topic's history has at most 100 entries. If a topic is registered
  in such a state, publishing 101 payloads to it one after the other leaves its history
  equal to the last 100 of them, in order.
\<close>

theorem history_bound:
  "(\<forall>tp \<in> snd ` set (topics (run ops (PubSubManager_init h))).
      length (message_history tp) \<le> 100) \<and>
   (\<forall>tp. map_of (topics (run ops (PubSubManager_init h))) n = Some tp \<and> length ms = 101 \<longrightarrow>
      (\<exists>tp'. map_of (topics (run (map (Publish n) ms) (run ops (PubSubManager_init h)))) n
               = Some tp' \<and>
            message_history tp' = drop 1 ms \<and> length (message_history tp') = 100))"
proof (intro conjI allI impI)
  have init: "\<forall>tp \<in> snd ` set (topics (PubSubManager_init h)). length (message_history tp) \<le> 100"
    by (simp add: PubSubManager_init_def)
  show inv: "\<forall>tp \<in> snd ` set (topics (run ops (PubSubManager_init h))).
      length (message_history tp) \<le> 100"
    by (rule run_history_bound [OF init])
  fix tp
  assume a: "map_of (topics (run ops (PubSubManager_init h))) n = Some tp \<and> length ms = 101"
  then have "(n, tp) \<in> set (topics (run ops (PubSubManager_init h)))"
    by (auto dest: map_of_SomeD)
  with inv have le: "length (message_history tp) \<le> 100" by force
  from publish_many [OF a [THEN conjunct1] le, of ms] obtain tp' where
    r: "map_of (topics (run (map (Publish n) ms) (run ops (PubSubManager_init h)))) n = Some tp'"
    and hh: "message_history tp' =
        drop (length (message_history tp @ ms) - 100) (message_history tp @ ms)"
    by blast
  from hh a have "message_history tp' = drop 1 ms" by simp
  with r a show "\<exists>tp'. map_of (topics (run (map (Publish n) ms) (run ops (PubSubManager_init h)))) n
               = Some tp' \<and>
            message_history tp' = drop 1 ms \<and> length (message_history tp') = 100"
    by simp
qed

theorem history_bound_witness:
  "map_of (topics (run [Create_topic ''t'', Publish ''t'' 7] (PubSubManager_init (\<lambda>_. live)))) ''t''
     = Some \<lparr>name = ''t'', subscribers = [], message_history = [7], message_count = 1\<rparr> \<and>
   length (0 # replicate 100 (1::nat)) = 101 \<and>
   (\<exists>tp'. map_of (topics (run (map (Publish ''t'') (0 # replicate 100 1))
              (run [Create_topic ''t'', Publish ''t'' 7] (PubSubManager_init (\<lambda>_. live))))) ''t''
             = Some tp' \<and>
           message_history tp' = replicate 100 1 \<and> length (message_history tp') = 100)"
proof -
  have tp: "map_of (topics (run [Create_topic ''t'', Publish ''t'' 7] (PubSubManager_init (\<lambda>_. live)))) ''t''
     = Some \<lparr>name = ''t'', subscribers = [], message_history = [7], message_count = 1\<rparr>"
    by (simp add: PubSubManager_init_def create_topic_def publish_def broadcast_def
        Topic_init_def deque_append_def maxlen_def Let_def)
  have len: "length (0 # replicate 100 (1::nat)) = 101" by simp
  have d: "drop 1 (0 # replicate 100 (1::nat)) = replicate 100 1" by simp
  from history_bound [of "[Create_topic ''t'', Publish ''t'' 7]" "\<lambda>_. live" "''t''"
      "0 # replicate 100 1", THEN conjunct2, rule_format, OF conjI [OF tp len]]
  show ?thesis unfolding d using tp len by blast
qed

section \<open>The session's answers\<close>

lemma dispatch_unsupported:
  "map_of data ''type'' \<notin> {Some (JStr ''subscribe''), Some (JStr ''unsubscribe''),
       Some (JStr ''publish''), Some (JStr ''ping'')} \<Longrightarrow>
   dispatch to_int parse ws cid data s = (Some (ValueError ''Unsupported message type''), cid, s)"
  by (simp add: dispatch_def Let_def)

lemma error_msg_ValueError:
  "optional_str ''request_id'' request_id = Inr rid \<Longrightarrow>
   error_msg (ValueError txt) request_id = Some (Inr (ServerError rid txt ''Operation failed''))"
  by (simp add: error_msg_def ServerError_init_def)

subsection \<open>C4: a frame of an unknown type\<close>

text \<open>
  C4, as amended. For a frame whose \<open>type\<close> is none of \<open>subscribe\<close>, \<open>unsubscribe\<close>,
  \<open>publish\<close> and \<open>ping\<close> (or is missing), and whose \<open>request_id\<close> is absent, null or a
  string, the body of the \<^verbatim>\<open>try\<close> raises \<^verbatim>\<open>ValueError\<close> with the text
  \<open>Unsupported message type\<close> and changes nothing; the handler for \<^verbatim>\<open>ValueError\<close> builds a
  \<open>ServerError\<close> message with that \<open>request_id\<close>, error code \<open>Unsupported message type\<close> and
  message \<open>Operation failed\<close>, and passes its \<^verbatim>\<open>dict()\<close> to \<^verbatim>\<open>send_json\<close> of the session's
  connection; what that call does is the outcome of the step.
\<close>

theorem unsupported_type_answer:
  "map_of data ''type'' \<notin> {Some (JStr ''subscribe''), Some (JStr ''unsubscribe''),
       Some (JStr ''publish''), Some (JStr ''ping'')} \<Longrightarrow>
   optional_str ''request_id'' (map_of data ''request_id'') = Inr rid \<Longrightarrow>
   dispatch to_int parse ws cid data s = (Some (ValueError ''Unsupported message type''), cid, s) \<and>
   error_msg (ValueError ''Unsupported message type'') (map_of data ''request_id'')
     = Some (Inr (ServerError rid ''Unsupported message type'' ''Operation failed'')) \<and>
   handle_frame to_int parse ws cid data s =
     (case send_json ws (dict (ServerError rid ''Unsupported message type'' ''Operation failed''))
             (sockets s) of
        (r, h) \<Rightarrow> (r, cid, s\<lparr>sockets := h\<rparr>))"
  by (simp add: handle_frame_def dispatch_unsupported error_msg_ValueError del: dict.simps)

theorem unsupported_type_answer_witness:
  "map_of [(''type'', JStr ''bogus''), (''request_id'', JStr ''r1'')] ''type''
     \<notin> {Some (JStr ''subscribe''), Some (JStr ''unsubscribe''),
         Some (JStr ''publish''), Some (JStr ''ping'')} \<and>
   optional_str ''request_id''
       (map_of [(''type'', JStr ''bogus''), (''request_id'', JStr ''r1'')] ''request_id'')
     = Inr (Some ''r1'') \<and>
   error_msg (ValueError ''Unsupported message type'')
       (map_of [(''type'', JStr ''bogus''), (''request_id'', JStr ''r1'')] ''request_id'')
     = Some (Inr (ServerError (Some ''r1'') ''Unsupported message type'' ''Operation failed''
                   :: nat frame)) \<and>
   handle_frame (\<lambda>_. None) (\<lambda>_. None) 0 None
       [(''type'', JStr ''bogus''), (''request_id'', JStr ''r1'')] (PubSubManager_init (\<lambda>_. live))
     = (case send_json 0
              (dict (ServerError (Some ''r1'') ''Unsupported message type'' ''Operation failed''))
              (\<lambda>_. live) of
          (r, h) \<Rightarrow> (r, None, (PubSubManager_init (\<lambda>_. live))\<lparr>sockets := h\<rparr>))"
proof -
  let ?data = "[(''type'', JStr ''bogus''), (''request_id'', JStr ''r1'')]"
  have 1: "map_of ?data ''type'' \<notin> {Some (JStr ''subscribe''), Some (JStr ''unsubscribe''),
         Some (JStr ''publish''), Some (JStr ''ping'')}"
    by simp
  have 2: "optional_str ''request_id'' (map_of ?data ''request_id'') = Inr (Some ''r1'')"
    by (simp add: optional_str_def)
  have 3: "sockets (PubSubManager_init (\<lambda>_. live)) = (\<lambda>_. live)"
    by (simp add: PubSubManager_init_def)
  note th = unsupported_type_answer [OF 1 2, of "\<lambda>_. None" "\<lambda>_. None" 0 None
      "PubSubManager_init (\<lambda>_. live)"]
  show ?thesis
    using 1 2 th [THEN conjunct2, THEN conjunct1] th [THEN conjunct2, THEN conjunct2]
    unfolding 3 by (intro conjI)
qed

text \<open>
  C4 as stated fails: the \<^verbatim>\<open>else\<close> branch raises \<^verbatim>\<open>ValueError\<close> with the text
  \<open>Unsupported message type\<close>, which the handler for \<^verbatim>\<open>ValidationError\<close>, the only place
  where \<open>BAD_REQUEST\<close> is written, does not catch; the handler for \<^verbatim>\<open>ValueError\<close> puts the
  exception's text in the error code. On the frame below the message built has the code
  \<open>Unsupported message type\<close>, and no frame at all reaches the connection.
\<close>

theorem unsupported_type_answer_counterexample:
  "fst (dispatch (\<lambda>_. None) (\<lambda>_. None) 0 None
        [(''type'', JStr ''bogus''), (''request_id'', JStr ''r1'')]
        (PubSubManager_init (\<lambda>_. live))) = Some (ValueError ''Unsupported message type'') \<and>
   error_msg (ValueError ''Unsupported message type'')
       (map_of [(''type'', JStr ''bogus''), (''request_id'', JStr ''r1'')] ''request_id'')
     = Some (Inr (ServerError (Some ''r1'') ''Unsupported message type'' ''Operation failed''
                   :: nat frame)) \<and>
   ''Unsupported message type'' \<noteq> ''BAD_REQUEST'' \<and>
   sent (sockets (snd (snd (handle_frame (\<lambda>_. None) (\<lambda>_. None) 0 None
        [(''type'', JStr ''bogus''), (''request_id'', JStr ''r1'')]
        (PubSubManager_init (\<lambda>_. live))))) 0) = []"
  by (simp add: handle_frame_def dispatch_def error_msg_def ServerError_init_def optional_str_def
      PubSubManager_init_def Let_def del: dict.simps)

section \<open>A null \<open>last_n\<close>\<close>

lemma subscribe_outcome:
  "fst (subscribe n c ws (Some k) s) =
     (case map_of (topics s) n of
        None \<Rightarrow> Some (ValueError ''TOPIC_NOT_FOUND'')
      | Some tp \<Rightarrow> if 0 < k \<and> message_history tp \<noteq> [] then Some TypeError else None)"
proof (cases "map_of (topics s) n")
  case None
  then show ?thesis by (simp add: subscribe_def)
next
  case (Some tp)
  then show ?thesis by (simp add: subscribe_some)
qed

lemma subscribe_null:
  "map_of (topics s) n = Some tp \<Longrightarrow>
   subscribe n c ws None s =
     (Some TypeError,
      s\<lparr>topics := AList.map_entry n
                 (\<lambda>t. t\<lparr>subscribers := AList.update c ws (subscribers t)\<rparr>) (topics s),
        clients := AList.map_entry c (List.insert n)
                 (if map_of (clients s) c = None then AList.update c [] (clients s) else clients s)\<rparr>)"
  by (simp add: subscribe_def Let_def)

lemma validate_subscribe_null:
  "map_of data ''type'' = Some (JStr ''subscribe'') \<Longrightarrow>
   map_of data ''topic'' = Some (JStr t) \<Longrightarrow>
   map_of data ''client_id'' = Some (JStr c) \<Longrightarrow>
   map_of data ''last_n'' = Some JNull \<Longrightarrow>
   optional_str ''request_id'' (map_of data ''request_id'') = Inr rid \<Longrightarrow>
   validate_subscribe to_int data =
     Inr \<lparr>sub_topic = t, sub_client_id = c, sub_last_n = None, sub_request_id = rid\<rparr>"
  by (simp add: validate_subscribe_def literal_def required_str_def optional_int_ge0_def)

subsection \<open>C9: a subscribe frame with \<open>last_n\<close> null\<close>

text \<open>
  C9. A subscribe frame with string \<open>topic\<close> and \<open>client_id\<close>, an acceptable \<open>request_id\<close>
  and \<open>last_n\<close> explicitly null passes the schema, with \<open>last_n\<close> null and not the default 0.
  On a registered topic \<open>subscribe\<close> with a null \<open>last_n\<close> raises \<open>TypeError\<close> at the
  comparison \<open>last_n > 0\<close>, after it has installed the subscription, and neither handler of
  the session catches it: it leaves the loop. With an integer \<open>last_n\<close> the comparison is
  evaluated: \<open>subscribe\<close> raises \<open>TOPIC_NOT_FOUND\<close> on a name that is not registered, and on
  a registered topic it returns unless \<open>last_n > 0\<close> and the history has an entry to replay,
  where the error is the one of the replay's \<^verbatim>\<open>send_json\<close> (C2).
\<close>

theorem subscribe_null_last_n:
  "(map_of data ''type'' = Some (JStr ''subscribe'') \<and>
    map_of data ''topic'' = Some (JStr t) \<and>
    map_of data ''client_id'' = Some (JStr c) \<and>
    map_of data ''last_n'' = Some JNull \<and>
    optional_str ''request_id'' (map_of data ''request_id'') = Inr rid \<longrightarrow>
      validate_subscribe to_int data =
        Inr \<lparr>sub_topic = t, sub_client_id = c, sub_last_n = None, sub_request_id = rid\<rparr> \<and>
      (\<forall>tp. map_of (topics s) t = Some tp \<longrightarrow>
         fst (subscribe t c ws None s) = Some TypeError \<and>
         map_of (topics (snd (subscribe t c ws None s))) t
           = Some (tp\<lparr>subscribers := AList.update c ws (subscribers tp)\<rparr>) \<and>
         handle_frame to_int parse ws cid data s
           = (Some TypeError, Some c, snd (subscribe t c ws None s)))) \<and>
   (\<forall>k. fst (subscribe t c ws (Some k) s) =
      (case map_of (topics s) t of
         None \<Rightarrow> Some (ValueError ''TOPIC_NOT_FOUND'')
       | Some tp \<Rightarrow> if 0 < k \<and> message_history tp \<noteq> [] then Some TypeError else None))"
proof (intro conjI allI impI)
  fix k
  show "fst (subscribe t c ws (Some k) s) =
      (case map_of (topics s) t of
         None \<Rightarrow> Some (ValueError ''TOPIC_NOT_FOUND'')
       | Some tp \<Rightarrow> if 0 < k \<and> message_history tp \<noteq> [] then Some TypeError else None)"
    by (rule subscribe_outcome)
next
  assume a: "map_of data ''type'' = Some (JStr ''subscribe'') \<and>
    map_of data ''topic'' = Some (JStr t) \<and>
    map_of data ''client_id'' = Some (JStr c) \<and>
    map_of data ''last_n'' = Some JNull \<and>
    optional_str ''request_id'' (map_of data ''request_id'') = Inr rid"
  then show "validate_subscribe to_int data =
        Inr \<lparr>sub_topic = t, sub_client_id = c, sub_last_n = None, sub_request_id = rid\<rparr>"
    by (simp add: validate_subscribe_null)
next
  fix tp
  assume "map_of (topics s) t = Some tp"
  then show "fst (subscribe t c ws None s) = Some TypeError"
    by (simp add: subscribe_null)
next
  fix tp
  assume "map_of (topics s) t = Some tp"
  then show "map_of (topics (snd (subscribe t c ws None s))) t
           = Some (tp\<lparr>subscribers := AList.update c ws (subscribers tp)\<rparr>)"
    by (simp add: subscribe_null AList.map_of_map_entry)
next
  fix tp
  assume a: "map_of data ''type'' = Some (JStr ''subscribe'') \<and>
    map_of data ''topic'' = Some (JStr t) \<and>
    map_of data ''client_id'' = Some (JStr c) \<and>
    map_of data ''last_n'' = Some JNull \<and>
    optional_str ''request_id'' (map_of data ''request_id'') = Inr rid"
    and tp: "map_of (topics s) t = Some tp"
  from a have v: "validate_subscribe to_int data =
        Inr \<lparr>sub_topic = t, sub_client_id = c, sub_last_n = None, sub_request_id = rid\<rparr>"
    by (simp add: validate_subscribe_null)
  have d: "dispatch to_int parse ws cid data s
      = (Some TypeError, Some c, snd (subscribe t c ws None s))"
    using a by (simp add: dispatch_def Let_def v subscribe_null [OF tp])
  show "handle_frame to_int parse ws cid data s
      = (Some TypeError, Some c, snd (subscribe t c ws None s))"
    by (simp add: handle_frame_def d error_msg_def)
qed

theorem subscribe_null_last_n_witness:
  "map_of [(''type'', JStr ''subscribe''), (''topic'', JStr ''t''), (''client_id'', JStr ''c''),
           (''last_n'', JNull)] ''last_n'' = Some JNull \<and>
   validate_subscribe (\<lambda>_. None) [(''type'', JStr ''subscribe''), (''topic'', JStr ''t''),
           (''client_id'', JStr ''c''), (''last_n'', JNull)]
     = Inr \<lparr>sub_topic = ''t'', sub_client_id = ''c'', sub_last_n = None, sub_request_id = None\<rparr> \<and>
   map_of (topics \<lparr>topics = [(''t'', \<lparr>name = ''t'', subscribers = [],
                                   message_history = [5], message_count = 1\<rparr>)],
                  clients = [], sockets = (\<lambda>_. live)\<rparr>) ''t''
     = Some \<lparr>name = ''t'', subscribers = [], message_history = [5], message_count = 1\<rparr> \<and>
   fst (handle_frame (\<lambda>_. None) (\<lambda>_. None) 0 None
          [(''type'', JStr ''subscribe''), (''topic'', JStr ''t''), (''client_id'', JStr ''c''),
           (''last_n'', JNull)]
          \<lparr>topics = [(''t'', \<lparr>name = ''t'', subscribers = [],
                                   message_history = [5], message_count = 1\<rparr>)],
                  clients = [], sockets = (\<lambda>_. live)\<rparr>) = Some TypeError \<and>
   map_of (topics (snd (subscribe ''t'' ''c'' 0 None
          \<lparr>topics = [(''t'', \<lparr>name = ''t'', subscribers = [],
                                   message_history = [5], message_count = 1\<rparr>)],
                  clients = [], sockets = (\<lambda>_. live)\<rparr>))) ''t''
     = Some \<lparr>name = ''t'', subscribers = [(''c'', 0)], message_history = [5], message_count = 1\<rparr>"
proof -
  let ?data = "[(''type'', JStr ''subscribe''), (''topic'', JStr ''t''), (''client_id'', JStr ''c''),
           (''last_n'', JNull)]"
  let ?s = "\<lparr>topics = [(''t'', \<lparr>name = ''t'', subscribers = [],
                                   message_history = [5::nat], message_count = 1\<rparr>)],
                  clients = [], sockets = (\<lambda>_. live)\<rparr>"
  have hyp: "map_of ?data ''type'' = Some (JStr ''subscribe'') \<and>
    map_of ?data ''topic'' = Some (JStr ''t'') \<and>
    map_of ?data ''client_id'' = Some (JStr ''c'') \<and>
    map_of ?data ''last_n'' = Some JNull \<and>
    optional_str ''request_id'' (map_of ?data ''request_id'') = Inr None"
    by (simp add: optional_str_def)
  have tp: "map_of (topics ?s) ''t''
     = Some \<lparr>name = ''t'', subscribers = [], message_history = [5], message_count = 1\<rparr>"
    by simp
  note th = subscribe_null_last_n [of ?data "''t''" "''c''" None "\<lambda>_. None" ?s 0 "\<lambda>_. None" None,
      THEN conjunct1, rule_format, OF hyp]
  from th [THEN conjunct1] th [THEN conjunct2, rule_format, OF tp] hyp tp
  show ?thesis by simp
qed

section \<open>Deleting a topic\<close>

lemma map_of_discard_subscription:
  "map_of (discard_subscription c n cl) c' =
     (if c' = c then
        (case map_of cl c of
           None \<Rightarrow> None
         | Some S \<Rightarrow> if removeAll n S = [] then None else Some (removeAll n S))
      else map_of cl c')"
  by (auto simp: discard_subscription_def Let_def AList.map_of_map_entry AList.delete_conv'
      split: option.splits)

lemma map_of_fold_discard:
  "map_of (fold (\<lambda>(c, w). discard_subscription c n) xs cl) c' =
     (if c' \<in> fst ` set xs then
        (case map_of cl c' of
           None \<Rightarrow> None
         | Some S \<Rightarrow> if removeAll n S = [] then None else Some (removeAll n S))
      else map_of cl c')"
proof (induction xs arbitrary: cl)
  case Nil
  show ?case by simp
next
  case (Cons x xs)
  obtain c w where x: "x = (c, w)" by (cases x)
  show ?case
    by (auto simp: x Cons.IH map_of_discard_subscription split: option.splits)
qed

lemma notify_deleted_eq:
  "notify_deleted n xs cl h =
     (if \<exists>(c, w) \<in> set xs. client_state (h w) = Some CONNECTED
      then (Some TypeError,
            fold (\<lambda>(c, w). discard_subscription c n)
              (takeWhile (\<lambda>(c, w). client_state (h w) \<noteq> Some CONNECTED) xs) cl,
            h)
      else (None, fold (\<lambda>(c, w). discard_subscription c n) xs cl, h))"
proof (induction xs arbitrary: cl)
  case Nil
  show ?case by simp
next
  case (Cons x xs)
  obtain c ws where x: "x = (c, ws)" by (cases x)
  show ?case
  proof (cases "client_state (h ws) = Some CONNECTED")
    case True
    then show ?thesis by (simp add: x del: dict.simps)
  next
    case False
    then show ?thesis by (simp add: x Cons.IH del: dict.simps)
  qed
qed

lemma delete_topic_returns:
  assumes "map_of (topics s) n = Some tp" and "fst (delete_topic n s) = None"
  shows "delete_topic n s =
      (None, s\<lparr>topics := AList.delete n (topics s),
               clients := fold (\<lambda>(c, w). discard_subscription c n) (subscribers tp) (clients s),
               sockets := sockets s\<rparr>)"
  using assms by (simp add: delete_topic_def notify_deleted_eq split: if_splits)

subsection \<open>C3: delete\_topic\<close>

text \<open>
  C3, as amended. \<open>delete_topic n\<close> raises the 404 \<open>HTTPException\<close> and changes nothing if
  \<open>n\<close> is not registered. If \<open>n\<close> is registered and the call returns, then \<open>n\<close> is removed
  from the registry and the other topics stay; the index entry of every client in the
  subscribers map of \<open>n\<close> has lost \<open>n\<close> and is gone if that left it empty, and the other
  index entries are unchanged. So after the return \<open>n\<close> is not registered and no client
  that was in the subscribers map of \<open>n\<close> has \<open>n\<close> in its index entry: an entry that still
  contains \<open>n\<close> belongs to a client that was not in the subscribers map and had \<open>n\<close> in its
  entry before.
\<close>

theorem delete_topic_spec:
  "(map_of (topics s) n = None \<longrightarrow>
      delete_topic n s = (Some (HTTPException 404 ''Topic not found''), s)) \<and>
   (\<forall>tp. map_of (topics s) n = Some tp \<and> fst (delete_topic n s) = None \<longrightarrow>
      topics (snd (delete_topic n s)) = AList.delete n (topics s) \<and>
      map_of (topics (snd (delete_topic n s))) n = None \<and>
      (\<forall>c. map_of (clients (snd (delete_topic n s))) c =
         (if c \<in> fst ` set (subscribers tp) then
            (case map_of (clients s) c of
               None \<Rightarrow> None
             | Some S \<Rightarrow> if removeAll n S = [] then None else Some (removeAll n S))
          else map_of (clients s) c)) \<and>
      (\<forall>c S. map_of (clients (snd (delete_topic n s))) c = Some S \<and> n \<in> set S \<longrightarrow>
         c \<notin> fst ` set (subscribers tp) \<and> map_of (clients s) c = Some S))"
proof (intro conjI allI impI)
  assume "map_of (topics s) n = None"
  then show "delete_topic n s = (Some (HTTPException 404 ''Topic not found''), s)"
    by (simp add: delete_topic_def)
next
  fix tp
  assume "map_of (topics s) n = Some tp \<and> fst (delete_topic n s) = None"
  then have a: "map_of (topics s) n = Some tp" "fst (delete_topic n s) = None" by simp_all
  show "topics (snd (delete_topic n s)) = AList.delete n (topics s)"
    by (simp add: delete_topic_returns [OF a])
next
  fix tp
  assume "map_of (topics s) n = Some tp \<and> fst (delete_topic n s) = None"
  then have a: "map_of (topics s) n = Some tp" "fst (delete_topic n s) = None" by simp_all
  show "map_of (topics (snd (delete_topic n s))) n = None"
    by (simp add: delete_topic_returns [OF a] AList.delete_conv')
next
  fix tp c
  assume "map_of (topics s) n = Some tp \<and> fst (delete_topic n s) = None"
  then have a: "map_of (topics s) n = Some tp" "fst (delete_topic n s) = None" by simp_all
  show "map_of (clients (snd (delete_topic n s))) c =
         (if c \<in> fst ` set (subscribers tp) then
            (case map_of (clients s) c of
               None \<Rightarrow> None
             | Some S \<Rightarrow> if removeAll n S = [] then None else Some (removeAll n S))
          else map_of (clients s) c)"
    by (simp add: delete_topic_returns [OF a] map_of_fold_discard)
next
  fix tp c S
  assume "map_of (topics s) n = Some tp \<and> fst (delete_topic n s) = None"
  then have a: "map_of (topics s) n = Some tp" "fst (delete_topic n s) = None" by simp_all
  assume b: "map_of (clients (snd (delete_topic n s))) c = Some S \<and> n \<in> set S"
  from b show "c \<notin> fst ` set (subscribers tp)"
    by (auto simp: delete_topic_returns [OF a] map_of_fold_discard split: if_splits option.splits)
next
  fix tp c S
  assume "map_of (topics s) n = Some tp \<and> fst (delete_topic n s) = None"
  then have a: "map_of (topics s) n = Some tp" "fst (delete_topic n s) = None" by simp_all
  assume b: "map_of (clients (snd (delete_topic n s))) c = Some S \<and> n \<in> set S"
  from b show "map_of (clients s) c = Some S"
    by (auto simp: delete_topic_returns [OF a] map_of_fold_discard split: if_splits option.splits)
qed

theorem delete_topic_spec_witness:
  "map_of (topics \<lparr>topics = [(''t'', \<lparr>name = ''t'', subscribers = [(''a'', 0), (''b'', 1)],
                                   message_history = [5], message_count = 1\<rparr>)],
                  clients = [(''a'', [''t'']), (''b'', [''t'', ''u''])],
                  sockets = (\<lambda>_. gone)\<rparr>) ''u'' = None \<and>
   delete_topic ''u'' \<lparr>topics = [(''t'', \<lparr>name = ''t'', subscribers = [(''a'', 0), (''b'', 1)],
                                   message_history = [5], message_count = 1\<rparr>)],
                  clients = [(''a'', [''t'']), (''b'', [''t'', ''u''])],
                  sockets = (\<lambda>_. gone)\<rparr>
     = (Some (HTTPException 404 ''Topic not found''),
        \<lparr>topics = [(''t'', \<lparr>name = ''t'', subscribers = [(''a'', 0), (''b'', 1)],
                                   message_history = [5], message_count = 1\<rparr>)],
                  clients = [(''a'', [''t'']), (''b'', [''t'', ''u''])],
                  sockets = (\<lambda>_. gone)\<rparr>) \<and>
   map_of (topics \<lparr>topics = [(''t'', \<lparr>name = ''t'', subscribers = [(''a'', 0), (''b'', 1)],
                                   message_history = [5], message_count = 1\<rparr>)],
                  clients = [(''a'', [''t'']), (''b'', [''t'', ''u''])],
                  sockets = (\<lambda>_. gone)\<rparr>) ''t''
     = Some \<lparr>name = ''t'', subscribers = [(''a'', 0), (''b'', 1)],
                                   message_history = [5], message_count = 1\<rparr> \<and>
   fst (delete_topic ''t'' \<lparr>topics = [(''t'', \<lparr>name = ''t'', subscribers = [(''a'', 0), (''b'', 1)],
                                   message_history = [5], message_count = 1\<rparr>)],
                  clients = [(''a'', [''t'']), (''b'', [''t'', ''u''])],
                  sockets = (\<lambda>_. gone)\<rparr>) = None \<and>
   topics (snd (delete_topic ''t'' \<lparr>topics = [(''t'', \<lparr>name = ''t'', subscribers = [(''a'', 0), (''b'', 1)],
                                   message_history = [5], message_count = 1\<rparr>)],
                  clients = [(''a'', [''t'']), (''b'', [''t'', ''u''])],
                  sockets = (\<lambda>_. gone)\<rparr>)) = [] \<and>
   map_of (clients (snd (delete_topic ''t'' \<lparr>topics = [(''t'', \<lparr>name = ''t'', subscribers = [(''a'', 0), (''b'', 1)],
                                   message_history = [5], message_count = 1\<rparr>)],
                  clients = [(''a'', [''t'']), (''b'', [''t'', ''u''])],
                  sockets = (\<lambda>_. gone)\<rparr>))) ''a'' = None \<and>
   map_of (clients (snd (delete_topic ''t'' \<lparr>topics = [(''t'', \<lparr>name = ''t'', subscribers = [(''a'', 0), (''b'', 1)],
                                   message_history = [5], message_count = 1\<rparr>)],
                  clients = [(''a'', [''t'']), (''b'', [''t'', ''u''])],
                  sockets = (\<lambda>_. gone)\<rparr>))) ''b'' = Some [''u'']"
proof -
  let ?s = "\<lparr>topics = [(''t'', \<lparr>name = ''t'', subscribers = [(''a'', 0), (''b'', 1)],
                                   message_history = [5::nat], message_count = 1\<rparr>)],
                  clients = [(''a'', [''t'']), (''b'', [''t'', ''u''])],
                  sockets = (\<lambda>_. gone)\<rparr>"
  let ?tp = "\<lparr>name = ''t'', subscribers = [(''a'', 0), (''b'', 1)],
                                   message_history = [5::nat], message_count = 1::int\<rparr>"
  have tp: "map_of (topics ?s) ''t'' = Some ?tp" by simp
  have ret: "fst (delete_topic ''t'' ?s) = None"
    by (simp add: delete_topic_def)
  note post = delete_topic_spec [of ?s "''t''", THEN conjunct2, rule_format, OF conjI [OF tp ret]]
  show ?thesis
    using delete_topic_spec [of ?s "''u''", THEN conjunct1] tp ret
      post [THEN conjunct1]
      post [THEN conjunct2, THEN conjunct2, THEN conjunct1, rule_format, of "''a''"]
      post [THEN conjunct2, THEN conjunct2, THEN conjunct1, rule_format, of "''b''"]
    by simp
qed

text \<open>
  C3 as stated fails in its last clause. A client whose connection is no longer connected
  is purged from the subscribers map by the fan-out of a \<open>publish\<close>, which leaves its index
  entry alone; \<open>delete_topic\<close> cleans the index entries of the subscribers it still finds,
  so the purged client keeps the deleted topic in its entry.
\<close>

theorem delete_topic_spec_counterexample:
  "fst (exec (Delete_topic ''t'')
          (run [Create_topic ''t'', Subscribe ''t'' ''c'' 0 (Some 0), Environment (\<lambda>_. gone),
                Publish ''t'' 7]
             (PubSubManager_init (\<lambda>_. live)))) = None \<and>
   topics (snd (exec (Delete_topic ''t'')
          (run [Create_topic ''t'', Subscribe ''t'' ''c'' 0 (Some 0), Environment (\<lambda>_. gone),
                Publish ''t'' 7]
             (PubSubManager_init (\<lambda>_. live))))) = [] \<and>
   clients (snd (exec (Delete_topic ''t'')
          (run [Create_topic ''t'', Subscribe ''t'' ''c'' 0 (Some 0), Environment (\<lambda>_. gone),
                Publish ''t'' 7]
             (PubSubManager_init (\<lambda>_. live))))) = [(''c'', [''t''])]"
  by (simp add: PubSubManager_init_def create_topic_def subscribe_def publish_def broadcast_def
      delete_topic_def Topic_init_def deque_append_def maxlen_def Let_def)

section \<open>The index and the subscribers maps\<close>

lemma keys_delete: "fst ` set (AList.delete k al) = fst ` set al - {k}"
proof -
  have "fst ` set (AList.delete k al) = set (map fst (AList.delete k al))" by simp
  also have "\<dots> = set (removeAll k (map fst al))" by (simp only: AList.delete_keys)
  finally show ?thesis by simp
qed

lemma create_topic_effect:
  "map_of (topics (snd (create_topic n s))) n' =
     (if map_of (topics s) n = None \<and> n' = n then Some (Topic_init n) else map_of (topics s) n')"
  "clients (snd (create_topic n s)) = clients s"
  by (auto simp: create_topic_def AList.update_conv')

lemma subscribe_topics:
  "map_of (topics (snd (subscribe n c ws k s))) n' =
     (if n' = n
      then map_option (\<lambda>t. t\<lparr>subscribers := AList.update c ws (subscribers t)\<rparr>) (map_of (topics s) n)
      else map_of (topics s) n')"
  by (auto simp: topics_subscribe AList.map_of_map_entry split: option.splits)

lemma clients_subscribe:
  "map_of (clients (snd (subscribe n c ws k s))) c' =
     (if map_of (topics s) n \<noteq> None \<and> c' = c
      then Some (List.insert n (case map_of (clients s) c of None \<Rightarrow> [] | Some S \<Rightarrow> S))
      else map_of (clients s) c')"
  by (auto simp: subscribe_def Let_def AList.map_of_map_entry AList.update_conv'
      split: option.splits prod.splits)

lemma unsubscribe_topics:
  "map_of (topics (snd (unsubscribe n c s))) n' =
     (if n' = n
      then map_option (\<lambda>t. t\<lparr>subscribers := AList.delete c (subscribers t)\<rparr>) (map_of (topics s) n)
      else map_of (topics s) n')"
  by (auto simp: topics_unsubscribe AList.map_of_map_entry split: option.splits)

lemma clients_unsubscribe:
  "clients (snd (unsubscribe n c s)) =
     (if map_of (topics s) n = None then clients s else discard_subscription c n (clients s))"
  by (auto simp: unsubscribe_def split: option.splits)

lemma disconnect_client_effect:
  "map_of (clients (disconnect_client c s)) c' = (if c' = c then None else map_of (clients s) c')"
  "map_of (topics (disconnect_client c s)) n =
     (if n \<in> set (case map_of (clients s) c of None \<Rightarrow> [] | Some S \<Rightarrow> S)
      then map_option (\<lambda>t. t\<lparr>subscribers := AList.delete c (subscribers t)\<rparr>) (map_of (topics s) n)
      else map_of (topics s) n)"
proof -
  show "map_of (clients (disconnect_client c s)) c' = (if c' = c then None else map_of (clients s) c')"
    by (auto simp: disconnect_client_def AList.delete_conv' split: option.splits)
  let ?f = "\<lambda>t::'a topic. t\<lparr>subscribers := AList.delete c (subscribers t)\<rparr>"
  have idem: "\<And>t. ?f (?f t) = ?f t" by (simp add: AList.delete_idem)
  show "map_of (topics (disconnect_client c s)) n =
     (if n \<in> set (case map_of (clients s) c of None \<Rightarrow> [] | Some S \<Rightarrow> S)
      then map_option ?f (map_of (topics s) n)
      else map_of (topics s) n)"
    by (cases "map_of (clients s) c")
      (simp_all add: disconnect_client_def map_of_fold_map_entry [of ?f, OF idem])
qed

lemma list_insert_nonempty: "List.insert x xs \<noteq> []"
  by (cases xs) (simp_all add: List.insert_def)

lemma entry_nonempty:
  "(case e of None \<Rightarrow> None
    | Some S \<Rightarrow> if removeAll n0 S = [] then None else Some (removeAll n0 S)) \<noteq> Some []"
  by (auto split: option.splits)


lemma removeAll_emptyD: "removeAll n0 S = [] \<Longrightarrow> n \<in> set S \<Longrightarrow> n = n0"
  by (induction S) (auto split: if_splits)

lemma create_topic_ids:
  "subscriber_ids (snd (create_topic n0 s)) n = subscriber_ids s n"
  "index_entry (snd (create_topic n0 s)) c = index_entry s c"
  by (auto simp: create_topic_effect Topic_init_def split: option.splits)

lemma subscribe_ids:
  "subscriber_ids (snd (subscribe n0 c0 ws k s)) n =
     (if n = n0 \<and> map_of (topics s) n0 \<noteq> None then insert c0 (subscriber_ids s n0)
      else subscriber_ids s n)"
  by (auto simp: subscribe_topics AList.dom_update split: option.splits)

lemma subscribe_index:
  "index_entry (snd (subscribe n0 c0 ws k s)) c =
     (if c = c0 \<and> map_of (topics s) n0 \<noteq> None then insert n0 (index_entry s c0)
      else index_entry s c)"
  by (auto simp: clients_subscribe split: option.splits)

lemma unsubscribe_ids:
  "subscriber_ids (snd (unsubscribe n0 c0 s)) n =
     (if n = n0 then subscriber_ids s n0 - {c0} else subscriber_ids s n)"
  by (auto simp: unsubscribe_topics keys_delete split: option.splits)

lemma unsubscribe_index:
  "index_entry (snd (unsubscribe n0 c0 s)) c =
     (if c = c0 \<and> map_of (topics s) n0 \<noteq> None then index_entry s c0 - {n0}
      else index_entry s c)"
  by (auto simp: clients_unsubscribe map_of_discard_subscription dest: removeAll_emptyD
      split: option.splits if_splits)

lemma disconnect_client_ids:
  "subscriber_ids (disconnect_client c0 s) n =
     (if n \<in> index_entry s c0 then subscriber_ids s n - {c0} else subscriber_ids s n)"
  by (auto simp: disconnect_client_effect keys_delete split: option.splits)

lemma disconnect_client_index:
  "index_entry (disconnect_client c0 s) c = (if c = c0 then {} else index_entry s c)"
  by (auto simp: disconnect_client_effect split: option.splits)

lemma delete_topic_absent:
  "map_of (topics s) n0 = None \<Longrightarrow> snd (delete_topic n0 s) = s"
  by (simp add: delete_topic_def)

lemma delete_topic_ids:
  assumes "map_of (topics s) n0 = Some tp" and "fst (delete_topic n0 s) = None"
  shows "subscriber_ids (snd (delete_topic n0 s)) n = (if n = n0 then {} else subscriber_ids s n)"
  by (simp add: delete_topic_returns [OF assms] AList.delete_conv')

lemma delete_topic_index:
  assumes "map_of (topics s) n0 = Some tp" and "fst (delete_topic n0 s) = None"
  shows "index_entry (snd (delete_topic n0 s)) c =
     (if c \<in> subscriber_ids s n0 then index_entry s c - {n0} else index_entry s c)"
  using assms(1)
  by (auto simp: delete_topic_returns [OF assms] map_of_fold_discard dest: removeAll_emptyD
      split: option.splits if_splits)

lemma publish_clients: "clients (snd (publish n m s)) = clients s"
  by (auto simp: publish_def Let_def split: option.splits prod.splits)

lemma subscribers_project:
  fixes ts ts' :: "(string \<times> 'a topic) list"
  assumes "map (\<lambda>(n, tp). (n, subscribers tp)) ts' = map (\<lambda>(n, tp). (n, subscribers tp)) ts"
  shows "map_option subscribers (map_of ts' n) = map_option subscribers (map_of ts n)"
proof -
  have "map_of (map (\<lambda>(n, tp). (n, subscribers tp)) ts') n
      = map_of (map (\<lambda>(n, tp). (n, subscribers tp)) ts) n"
    using assms by (rule arg_cong)
  then show ?thesis by (simp add: map_of_map)
qed

lemma publish_ids:
  assumes "map (\<lambda>(n, tp). (n, subscribers tp)) (topics (snd (publish n0 m s)))
      = map (\<lambda>(n, tp). (n, subscribers tp)) (topics s)"
  shows "subscriber_ids (snd (publish n0 m s)) n = subscriber_ids s n"
  using subscribers_project [OF assms, of n] by (auto split: option.splits)

lemma exec_index:
  assumes inv: "\<forall>c n. (n \<in> index_entry s c) = (c \<in> subscriber_ids s n)"
    and ok: "case a of
               Delete_topic n \<Rightarrow> fst (exec a s) = None \<or> map_of (topics s) n = None
             | Publish n m \<Rightarrow>
                 map (\<lambda>(n, tp). (n, subscribers tp)) (topics (snd (exec a s)))
                   = map (\<lambda>(n, tp). (n, subscribers tp)) (topics s)
             | _ \<Rightarrow> True"
  shows "\<forall>c n. (n \<in> index_entry (snd (exec a s)) c) = (c \<in> subscriber_ids (snd (exec a s)) n)"
proof (cases a)
  case (Create_topic n0)
  show ?thesis unfolding Create_topic exec.simps create_topic_ids by (rule inv)
next
  case (Delete_topic n0)
  show ?thesis
  proof (cases "map_of (topics s) n0")
    case None
    then have "snd (delete_topic n0 s) = s" by (rule delete_topic_absent)
    then show ?thesis unfolding Delete_topic exec.simps using inv by simp
  next
    case (Some tp)
    with ok have ret: "fst (delete_topic n0 s) = None" by (simp add: Delete_topic)
    show ?thesis
      unfolding Delete_topic exec.simps delete_topic_ids [OF Some ret]
        delete_topic_index [OF Some ret]
      using inv by auto
  qed
next
  case (Subscribe n0 c0 ws k)
  show ?thesis
    unfolding Subscribe exec.simps subscribe_ids subscribe_index
    using inv by auto
next
  case (Unsubscribe n0 c0)
  show ?thesis
  proof (cases "map_of (topics s) n0")
    case None
    then have "snd (unsubscribe n0 c0 s) = s" by (simp add: unsubscribe_def)
    then show ?thesis unfolding Unsubscribe exec.simps using inv by simp
  next
    case (Some tp)
    show ?thesis
      unfolding Unsubscribe exec.simps unsubscribe_ids unsubscribe_index
      using inv Some by auto
  qed
next
  case (Publish n0 m)
  with ok have eq: "map (\<lambda>(n, tp). (n, subscribers tp)) (topics (snd (publish n0 m s)))
      = map (\<lambda>(n, tp). (n, subscribers tp)) (topics s)"
    by simp
  show ?thesis
    unfolding Publish exec.simps publish_ids [OF eq] publish_clients by (rule inv)
next
  case (Disconnect_client c0)
  show ?thesis
    unfolding Disconnect_client exec.simps snd_conv disconnect_client_ids disconnect_client_index
    using inv by auto
next
  case (Environment h)
  with inv show ?thesis by simp
qed

lemma exec_nonempty:
  assumes inv: "\<forall>c. map_of (clients s) c \<noteq> Some []"
    and ok: "case a of
               Delete_topic n \<Rightarrow> fst (exec a s) = None \<or> map_of (topics s) n = None
             | _ \<Rightarrow> True"
  shows "\<forall>c. map_of (clients (snd (exec a s))) c \<noteq> Some []"
proof (cases a)
  case (Create_topic n)
  with inv show ?thesis by (simp add: create_topic_effect)
next
  case (Delete_topic n)
  show ?thesis
  proof (cases "map_of (topics s) n")
    case None
    then have "snd (delete_topic n s) = s" by (rule delete_topic_absent)
    then show ?thesis unfolding Delete_topic exec.simps using inv by simp
  next
    case (Some tp)
    with ok have ret: "fst (delete_topic n s) = None" by (simp add: Delete_topic)
    show ?thesis
      unfolding Delete_topic exec.simps
      using inv by (simp add: delete_topic_returns [OF Some ret] map_of_fold_discard entry_nonempty)
  qed
next
  case (Subscribe n c ws k)
  with inv show ?thesis
    by (simp add: clients_subscribe list_insert_nonempty)
next
  case (Unsubscribe n c)
  with inv show ?thesis
    by (simp add: clients_unsubscribe map_of_discard_subscription entry_nonempty)
next
  case (Publish n m)
  with inv show ?thesis by (simp add: publish_clients)
next
  case (Disconnect_client c)
  with inv show ?thesis by (simp add: disconnect_client_effect(1))
next
  case (Environment h)
  with inv show ?thesis by simp
qed

lemma run_index_invariant:
  "\<forall>c n. (n \<in> index_entry s c) = (c \<in> subscriber_ids s n) \<Longrightarrow>
   \<forall>c. map_of (clients s) c \<noteq> Some [] \<Longrightarrow>
   no_purge_no_abort ops s \<Longrightarrow>
   (\<forall>c n. (n \<in> index_entry (run ops s) c) = (c \<in> subscriber_ids (run ops s) n)) \<and>
   (\<forall>c. map_of (clients (run ops s)) c \<noteq> Some [])"
proof (induction ops arbitrary: s)
  case Nil
  then show ?case by simp
next
  case (Cons a ops)
  from Cons.prems(3) have ok: "case a of
               Delete_topic n \<Rightarrow> fst (exec a s) = None \<or> map_of (topics s) n = None
             | Publish n m \<Rightarrow>
                 map (\<lambda>(n, tp). (n, subscribers tp)) (topics (snd (exec a s)))
                   = map (\<lambda>(n, tp). (n, subscribers tp)) (topics s)
             | _ \<Rightarrow> True"
    and rest: "no_purge_no_abort ops (snd (exec a s))"
    by simp_all
  from ok have ok2: "case a of
               Delete_topic n \<Rightarrow> fst (exec a s) = None \<or> map_of (topics s) n = None
             | _ \<Rightarrow> True"
    by (cases a) simp_all
  have "(\<forall>c n. (n \<in> index_entry (run ops (snd (exec a s))) c)
            = (c \<in> subscriber_ids (run ops (snd (exec a s))) n)) \<and>
   (\<forall>c. map_of (clients (run ops (snd (exec a s)))) c \<noteq> Some [])"
    by (rule Cons.IH [OF exec_index [OF Cons.prems(1) ok] exec_nonempty [OF Cons.prems(2) ok2] rest])
  then show ?case unfolding run.simps .
qed

lemma index_exact:
  assumes eq: "\<forall>c n. (n \<in> index_entry s c) = (c \<in> subscriber_ids s n)"
    and ne: "\<forall>c. map_of (clients s) c \<noteq> Some []"
  shows "(\<forall>c. (map_of (clients s) c \<noteq> None) =
            (\<exists>n tp. map_of (topics s) n = Some tp \<and> c \<in> fst ` set (subscribers tp))) \<and>
         (\<forall>c S. map_of (clients s) c = Some S \<longrightarrow>
            set S = {n. \<exists>tp. map_of (topics s) n = Some tp \<and> c \<in> fst ` set (subscribers tp)})"
proof (intro conjI allI impI)
  fix c
  show "(map_of (clients s) c \<noteq> None) =
            (\<exists>n tp. map_of (topics s) n = Some tp \<and> c \<in> fst ` set (subscribers tp))"
  proof
    assume "map_of (clients s) c \<noteq> None"
    then obtain S where S: "map_of (clients s) c = Some S" by auto
    with ne have "S \<noteq> []" by auto
    then obtain n where "n \<in> set S" by (cases S) auto
    with S have "n \<in> index_entry s c" by simp
    with eq have "c \<in> subscriber_ids s n" by simp
    then show "\<exists>n tp. map_of (topics s) n = Some tp \<and> c \<in> fst ` set (subscribers tp)"
      by (cases "map_of (topics s) n") auto
  next
    assume "\<exists>n tp. map_of (topics s) n = Some tp \<and> c \<in> fst ` set (subscribers tp)"
    then obtain n tp where "map_of (topics s) n = Some tp" "c \<in> fst ` set (subscribers tp)"
      by blast
    then have "c \<in> subscriber_ids s n" by simp
    with eq have "n \<in> index_entry s c" by simp
    then show "map_of (clients s) c \<noteq> None" by (cases "map_of (clients s) c") auto
  qed
next
  fix c S
  assume S: "map_of (clients s) c = Some S"
  show "set S = {n. \<exists>tp. map_of (topics s) n = Some tp \<and> c \<in> fst ` set (subscribers tp)}"
  proof (rule set_eqI)
    fix n
    have "(n \<in> set S) = (n \<in> index_entry s c)" using S by simp
    also have "\<dots> = (c \<in> subscriber_ids s n)" using eq by simp
    also have "\<dots> = (\<exists>tp. map_of (topics s) n = Some tp \<and> c \<in> fst ` set (subscribers tp))"
      by (cases "map_of (topics s) n") auto
    finally show "(n \<in> set S)
        = (n \<in> {n. \<exists>tp. map_of (topics s) n = Some tp \<and> c \<in> fst ` set (subscribers tp)})"
      by simp
  qed
qed

subsection \<open>C6: the index against the subscribers maps\<close>

text \<open>
  C6, as amended. After every run of manager operations and environment steps from a fresh
  manager in which no \<open>publish\<close> removed a subscriber from a subscribers map and no
  \<open>delete_topic\<close> of a registered topic raised, a client id has an index entry if and only
  if some registered topic has it in its subscribers map, and the entry of a client is
  exactly the set of the names of the registered topics that have the client in their
  subscribers map.
\<close>

theorem index_equals_subscriptions:
  "no_purge_no_abort ops (PubSubManager_init h) \<Longrightarrow>
   (\<forall>c. (map_of (clients (run ops (PubSubManager_init h))) c \<noteq> None) =
      (\<exists>n tp. map_of (topics (run ops (PubSubManager_init h))) n = Some tp \<and>
               c \<in> fst ` set (subscribers tp))) \<and>
   (\<forall>c S. map_of (clients (run ops (PubSubManager_init h))) c = Some S \<longrightarrow>
      set S = {n. \<exists>tp. map_of (topics (run ops (PubSubManager_init h))) n = Some tp \<and>
                       c \<in> fst ` set (subscribers tp)})"
proof -
  assume a: "no_purge_no_abort ops (PubSubManager_init h)"
  have 1: "\<forall>c n. (n \<in> index_entry (PubSubManager_init h) c)
      = (c \<in> subscriber_ids (PubSubManager_init h) n)"
    by (simp add: PubSubManager_init_def)
  have 2: "\<forall>c. map_of (clients (PubSubManager_init h)) c \<noteq> Some []"
    by (simp add: PubSubManager_init_def)
  from run_index_invariant [OF 1 2 a] show ?thesis
    by (intro index_exact) simp_all
qed

theorem index_equals_subscriptions_witness:
  "no_purge_no_abort
     [Create_topic ''t'', Create_topic ''u'', Subscribe ''t'' ''c'' 0 (Some 0),
      Subscribe ''u'' ''c'' 0 (Some 0), Publish ''t'' 7, Environment (\<lambda>_. gone),
      Delete_topic ''u'']
     (PubSubManager_init (\<lambda>_. live)) \<and>
   map_of (clients (run
     [Create_topic ''t'', Create_topic ''u'', Subscribe ''t'' ''c'' 0 (Some 0),
      Subscribe ''u'' ''c'' 0 (Some 0), Publish ''t'' 7, Environment (\<lambda>_. gone),
      Delete_topic ''u'']
     (PubSubManager_init (\<lambda>_. live)))) ''c'' = Some [''t''] \<and>
   topics (run
     [Create_topic ''t'', Create_topic ''u'', Subscribe ''t'' ''c'' 0 (Some 0),
      Subscribe ''u'' ''c'' 0 (Some 0), Publish ''t'' 7, Environment (\<lambda>_. gone),
      Delete_topic ''u'']
     (PubSubManager_init (\<lambda>_. live)))
     = [(''t'', \<lparr>name = ''t'', subscribers = [(''c'', 0)], message_history = [7],
                 message_count = 1\<rparr>)] \<and>
   {n. \<exists>tp. map_of (topics (run
     [Create_topic ''t'', Create_topic ''u'', Subscribe ''t'' ''c'' 0 (Some 0),
      Subscribe ''u'' ''c'' 0 (Some 0), Publish ''t'' 7, Environment (\<lambda>_. gone),
      Delete_topic ''u'']
     (PubSubManager_init (\<lambda>_. live)))) n = Some tp \<and> ''c'' \<in> fst ` set (subscribers tp)}
     = {''t''}"
proof -
  let ?ops = "[Create_topic ''t'', Create_topic ''u'', Subscribe ''t'' ''c'' 0 (Some 0),
      Subscribe ''u'' ''c'' 0 (Some 0), Publish ''t'' 7, Environment (\<lambda>_. gone),
      Delete_topic ''u''] :: nat op list"
  let ?init = "PubSubManager_init (\<lambda>_. live)"
  have np: "no_purge_no_abort ?ops ?init"
    by (simp add: PubSubManager_init_def create_topic_def subscribe_def publish_def
        broadcast_def delete_topic_def Topic_init_def discard_subscription_def deque_append_def
        maxlen_def Let_def del: dict.simps)
  have cl: "map_of (clients (run ?ops ?init)) ''c'' = Some [''t'']"
    by (simp add: PubSubManager_init_def create_topic_def subscribe_def publish_def
        broadcast_def delete_topic_def Topic_init_def discard_subscription_def deque_append_def
        maxlen_def Let_def del: dict.simps)
  have tp: "topics (run ?ops ?init)
     = [(''t'', \<lparr>name = ''t'', subscribers = [(''c'', 0)], message_history = [7],
                 message_count = 1\<rparr>)]"
    by (simp add: PubSubManager_init_def create_topic_def subscribe_def publish_def
        broadcast_def delete_topic_def Topic_init_def discard_subscription_def deque_append_def
        maxlen_def Let_def del: dict.simps)
  from index_equals_subscriptions [OF np, THEN conjunct2, rule_format, OF cl]
  have "{n. \<exists>tp. map_of (topics (run ?ops ?init)) n = Some tp \<and>
            ''c'' \<in> fst ` set (subscribers tp)} = {''t''}"
    by simp
  with np cl tp show ?thesis by (intro conjI)
qed

text \<open>
  C6 as stated fails. After a subscribe, the peer going away and a publish, no operation is
  in flight, the client \<open>c\<close> has the index entry \<open>{t}\<close>, and the subscribers map of \<open>t\<close>,
  the only topic, is empty.
\<close>

theorem index_equals_subscriptions_counterexample:
  "topics (run [Create_topic ''t'', Subscribe ''t'' ''c'' 0 (Some 0), Environment (\<lambda>_. gone),
                Publish ''t'' 7]
             (PubSubManager_init (\<lambda>_. live)))
     = [(''t'', \<lparr>name = ''t'', subscribers = [], message_history = [7], message_count = 1\<rparr>)] \<and>
   clients (run [Create_topic ''t'', Subscribe ''t'' ''c'' 0 (Some 0), Environment (\<lambda>_. gone),
                Publish ''t'' 7]
             (PubSubManager_init (\<lambda>_. live)))
     = [(''c'', [''t''])]"
  by (simp add: PubSubManager_init_def create_topic_def subscribe_def publish_def broadcast_def
      Topic_init_def deque_append_def maxlen_def Let_def)

end
